theory Spec2Isabelle
  imports Complex_Main "HOL-Library.Char_ord" "HOL-Library.List_Lexorder" "HOL-Library.Multiset"
begin

section \<open>Python values\<close>

text \<open>
  A cell value is whatever the loader stored under \<open>CellData.value\<close>: \<open>None\<close>, a
  \<open>str\<close>, an \<open>int\<close> or \<open>float\<close>, a \<open>bool\<close> or a \<open>datetime\<close>.
  A number is kept as its numeric value together with the text \<open>str()\<close> gives for it
  (\<open>1\<close> and \<open>1.0\<close> are equal numbers with different texts); a \<open>datetime\<close> is
  identified by its \<open>str()\<close> text. A string is a list of characters with code points
  below 256; NaN and the infinities are outside the model.
\<close>

datatype pyval =
    PNone
  | PStr string
  | PNum rat string
  | PBool bool
  | PDate string

datatype py_error = ValueError | TypeError | AttributeError | IndexError | KeyError

text \<open>The numeric reading of a value: \<open>bool\<close> is a subclass of \<open>int\<close>.\<close>

fun py_number :: "pyval \<Rightarrow> rat option" where
  "py_number (PNum r t) = Some r"
| "py_number (PBool b) = Some (if b then 1 else 0)"
| "py_number v = None"

text \<open>Python's \<open>==\<close> on cell values; \<open>!=\<close> is its negation.\<close>

definition py_eq :: "pyval \<Rightarrow> pyval \<Rightarrow> bool" where
  "py_eq a b =
     (case (py_number a, py_number b) of
        (Some x, Some y) \<Rightarrow> x = y
      | (None, None) \<Rightarrow> a = b
      | _ \<Rightarrow> False)"

text \<open>Truth value of a cell value in a condition (\<open>if val:\<close>).\<close>

fun py_truthy :: "pyval \<Rightarrow> bool" where
  "py_truthy PNone = False"
| "py_truthy (PStr s) = (s \<noteq> [])"
| "py_truthy (PNum r t) = (r \<noteq> 0)"
| "py_truthy (PBool b) = b"
| "py_truthy (PDate t) = True"

fun py_str :: "pyval \<Rightarrow> string" where
  "py_str PNone = ''None''"
| "py_str (PStr s) = s"
| "py_str (PNum r t) = t"
| "py_str (PBool b) = (if b then ''True'' else ''False'')"
| "py_str (PDate t) = t"

fun isinstance_str :: "pyval \<Rightarrow> bool" where
  "isinstance_str (PStr s) = True"
| "isinstance_str v = False"

text \<open>
  \<open>str.isspace\<close> on one character. A character is a code point below 256: the
  white space there is 9 to 13, 28 to 32, 133 and 160.
\<close>

definition py_isspace :: "char \<Rightarrow> bool" where
  "py_isspace c =
     (let n = (of_char c :: nat)
      in (9 \<le> n \<and> n \<le> 13) \<or> (28 \<le> n \<and> n \<le> 32) \<or> n = 133 \<or> n = 160)"

definition py_strip :: "string \<Rightarrow> string" where
  "py_strip s = rev (dropWhile py_isspace (rev (dropWhile py_isspace s)))"

text \<open>
  \<open>str.lower\<close> on one character: below 256 the upper-case letters are 65 to 90,
  192 to 214 and 216 to 222, each 32 below its lower-case letter.
\<close>

definition py_lower_char :: "char \<Rightarrow> char" where
  "py_lower_char c =
     (let n = (of_char c :: nat)
      in if (65 \<le> n \<and> n \<le> 90) \<or> (192 \<le> n \<and> n \<le> 214) \<or> (216 \<le> n \<and> n \<le> 222)
         then char_of (n + 32) else c)"

definition py_lower :: "string \<Rightarrow> string" where
  "py_lower s = map py_lower_char s"

text \<open>\<open>v.lower()\<close> and \<open>v.strip()\<close> applied only \<open>if isinstance(v, str)\<close>.\<close>

fun lower_if_str :: "pyval \<Rightarrow> pyval" where
  "lower_if_str (PStr s) = PStr (py_lower s)"
| "lower_if_str v = v"

fun strip_if_str :: "pyval \<Rightarrow> pyval" where
  "strip_if_str (PStr s) = PStr (py_strip s)"
| "strip_if_str v = v"

text \<open>\<open>val is None or val == ""\<close>.\<close>

definition is_empty_value :: "pyval \<Rightarrow> bool" where
  "is_empty_value v = (v = PNone \<or> py_eq v (PStr []))"

text \<open>\<open>val is not None and str(val).strip() != ""\<close>.\<close>

definition not_blank :: "pyval \<Rightarrow> bool" where
  "not_blank v = (v \<noteq> PNone \<and> py_strip (py_str v) \<noteq> [])"

section \<open>Data model (models/excel\_model.py, models/diff\_model.py)\<close>

datatype CellType = EMPTY | STRING | NUMBER | BOOLEAN | DATE | FORMULA | ERROR

record CellStyle =
  font_name :: "string option"
  font_size :: "rat option"
  font_bold :: bool
  font_italic :: bool
  font_color :: "string option"
  bg_color :: "string option"
  border :: "string option"
  alignment :: "string option"
  number_format :: "string option"

record CellData =
  val :: pyval
  formula :: "string option"
  cell_type :: CellType
  style :: "CellStyle option"
  comment :: "string option"

definition is_empty :: "CellData \<Rightarrow> bool" where
  "is_empty c = (val c = PNone \<or> py_eq (val c) (PStr []))"

record SheetData =
  name :: string
  rows :: "CellData list list"
  row_count :: nat
  col_count :: nat

definition get_cell :: "SheetData \<Rightarrow> int \<Rightarrow> int \<Rightarrow> CellData option" where
  "get_cell sh r c =
     (if 0 \<le> r \<and> r < int (length (rows sh)) \<and> 0 \<le> c \<and> c < int (length (rows sh ! nat r))
      then Some (rows sh ! nat r ! nat c) else None)"

record WorkbookData =
  file_path :: string
  file_name :: string
  file_size :: nat
  modified_time :: string
  sheets :: "SheetData list"
  sheet_names :: "string list"

definition get_sheet :: "WorkbookData \<Rightarrow> string \<Rightarrow> SheetData option" where
  "get_sheet wb n = find (\<lambda>s. name s = n) (sheets wb)"

datatype DiffType = MODIFIED | ADDED | DELETED | FORMAT_CHANGED

record DiffResult =
  sheet :: string
  row :: nat
  col :: nat
  diff_type :: DiffType
  old_value :: pyval
  new_value :: pyval
  old_formula :: "string option"
  new_formula :: "string option"
  row_b :: "nat option"
  col_b :: "nat option"

text \<open>The constructor call with its defaults: every field not given is \<open>None\<close>.\<close>

definition mk_diff :: "string \<Rightarrow> nat \<Rightarrow> nat \<Rightarrow> DiffType \<Rightarrow> pyval \<Rightarrow> pyval \<Rightarrow> DiffResult" where
  "mk_diff s r c t ov nv =
     \<lparr>sheet = s, row = r, col = c, diff_type = t, old_value = ov, new_value = nv,
      old_formula = None, new_formula = None, row_b = None, col_b = None\<rparr>"

definition mk_diff_b :: "string \<Rightarrow> nat \<Rightarrow> nat \<Rightarrow> DiffType \<Rightarrow> pyval \<Rightarrow> pyval \<Rightarrow> nat \<Rightarrow> nat \<Rightarrow> DiffResult" where
  "mk_diff_b s r c t ov nv rb cb = (mk_diff s r c t ov nv)\<lparr>row_b := Some rb, col_b := Some cb\<rparr>"

record DiffSummary =
  total :: nat
  modified :: nat
  added :: nat
  deleted :: nat
  format_changed :: nat

definition empty_summary :: DiffSummary where
  "empty_summary = \<lparr>total = 0, modified = 0, added = 0, deleted = 0, format_changed = 0\<rparr>"

definition add_diff :: "DiffSummary \<Rightarrow> DiffType \<Rightarrow> DiffSummary" where
  "add_diff s t =
     (let s1 = s\<lparr>total := total s + 1\<rparr> in
      if t = MODIFIED then s1\<lparr>modified := modified s1 + 1\<rparr>
      else if t = ADDED then s1\<lparr>added := added s1 + 1\<rparr>
      else if t = DELETED then s1\<lparr>deleted := deleted s1 + 1\<rparr>
      else if t = FORMAT_CHANGED then s1\<lparr>format_changed := format_changed s1 + 1\<rparr>
      else s1)"

record CompareResult =
  file_a :: string
  file_b :: string
  diffs :: "DiffResult list"
  summary :: DiffSummary


section \<open>CompareService (services/compare\_service.py)\<close>

datatype CompareMode = EXACT | NUMERIC | STRUCTURE | FORMULA

record CompareOptions =
  ignore_format :: bool
  ignore_empty_rows :: bool
  ignore_empty_cols :: bool
  ignore_case :: bool
  ignore_whitespace :: bool
  ignore_hidden :: bool
  ignore_comments :: bool

definition default_options :: CompareOptions where
  "default_options =
     \<lparr>ignore_format = True, ignore_empty_rows = False, ignore_empty_cols = False,
      ignore_case = False, ignore_whitespace = False, ignore_hidden = False,
      ignore_comments = True\<rparr>"

text \<open>\<open>cell.value if cell else None\<close> (a \<open>CellData\<close> object is always true).\<close>

definition cell_val :: "CellData option \<Rightarrow> pyval" where
  "cell_val cell = (case cell of None \<Rightarrow> PNone | Some c \<Rightarrow> val c)"

text \<open>
  The two values \<open>_compare_cells\<close> compares, after its ignore options were applied:
  lower-casing needs both sides to be strings, stripping is per side.
\<close>

definition normalized_values :: "CompareOptions \<Rightarrow> CellData option \<Rightarrow> CellData option \<Rightarrow> pyval \<times> pyval" where
  "normalized_values options cell_a cell_b =
     (let val_a = cell_val cell_a;
          val_b = cell_val cell_b;
          both = (ignore_case options \<and> isinstance_str val_a \<and> isinstance_str val_b);
          val_a = (if both then lower_if_str val_a else val_a);
          val_b = (if both then lower_if_str val_b else val_b);
          val_a = (if ignore_whitespace options then strip_if_str val_a else val_a);
          val_b = (if ignore_whitespace options then strip_if_str val_b else val_b)
      in (val_a, val_b))"

definition compare_styles :: "CellData option \<Rightarrow> CellData option \<Rightarrow> bool" where
  "compare_styles cell_a cell_b =
     (let style_a = (case cell_a of None \<Rightarrow> None | Some c \<Rightarrow> style c);
          style_b = (case cell_b of None \<Rightarrow> None | Some c \<Rightarrow> style c)
      in case (style_a, style_b) of
           (None, None) \<Rightarrow> False
         | (None, Some sb) \<Rightarrow> True
         | (Some sa, None) \<Rightarrow> True
         | (Some sa, Some sb) \<Rightarrow>
             font_name sa \<noteq> font_name sb \<or> font_size sa \<noteq> font_size sb \<or>
             font_bold sa \<noteq> font_bold sb \<or> bg_color sa \<noteq> bg_color sb)"

definition compare_cells ::
  "string \<Rightarrow> nat \<Rightarrow> nat \<Rightarrow> CellData option \<Rightarrow> CellData option \<Rightarrow> CompareOptions \<Rightarrow> DiffResult option" where
  "compare_cells sheet_name r c cell_a cell_b options =
     (let (val_a, val_b) = normalized_values options cell_a cell_b;
          is_empty_a = (val_a = PNone \<or> py_eq val_a (PStr []));
          is_empty_b = (val_b = PNone \<or> py_eq val_b (PStr []))
      in if is_empty_a \<and> is_empty_b then None
         else if py_eq val_a val_b then
           (if \<not> ignore_format options \<and> compare_styles cell_a cell_b
            then Some (mk_diff sheet_name r c FORMAT_CHANGED val_a val_b)
            else None)
         else
           (let diff_type =
                  (if is_empty_a \<and> \<not> is_empty_b then ADDED
                   else if \<not> is_empty_a \<and> is_empty_b then DELETED
                   else MODIFIED)
            in Some (mk_diff sheet_name r c diff_type (cell_val cell_a) (cell_val cell_b))))"

definition is_row_empty :: "SheetData \<Rightarrow> nat \<Rightarrow> bool" where
  "is_row_empty sh r =
     (if r \<ge> length (rows sh) then True else list_all is_empty (rows sh ! r))"

definition compare_exact :: "SheetData \<Rightarrow> SheetData \<Rightarrow> CompareOptions \<Rightarrow> DiffResult list" where
  "compare_exact sheet_a sheet_b options =
     (let max_rows = max (row_count sheet_a) (row_count sheet_b);
          max_cols = max (col_count sheet_a) (col_count sheet_b)
      in concat (map (\<lambda>r.
           if ignore_empty_rows options \<and> is_row_empty sheet_a r \<and> is_row_empty sheet_b r then []
           else List.map_filter (\<lambda>c.
                  compare_cells (name sheet_a) r c
                    (get_cell sheet_a (int r) (int c)) (get_cell sheet_b (int r) (int c)) options)
                [0..<max_cols])
         [0..<max_rows]))"

text \<open>
  \<open>_to_numeric\<close>. The builtin \<open>float\<close> is a parameter \<open>fl\<close>: it returns a float or
  raises. A \<open>NUMBER\<close> cell converts directly (an exception is not caught there); a
  \<open>STRING\<close> cell converts when \<open>float\<close> accepts its text, and \<open>ValueError\<close> and
  \<open>TypeError\<close> give \<open>None\<close>; every other cell gives \<open>None\<close>.
\<close>

definition to_numeric :: "(pyval \<Rightarrow> py_error + pyval) \<Rightarrow> CellData option \<Rightarrow> py_error + pyval" where
  "to_numeric fl cell =
     (case cell of
        None \<Rightarrow> Inr PNone
      | Some c \<Rightarrow>
          if cell_type c = NUMBER then fl (val c)
          else if cell_type c = STRING then
            (case fl (val c) of
               Inr v \<Rightarrow> Inr v
             | Inl e \<Rightarrow> if e = ValueError \<or> e = TypeError then Inr PNone else Inl e)
          else Inr PNone)"

text \<open>A loop that appends results and stops at the first exception.\<close>

fun collect :: "(py_error + 'a) list \<Rightarrow> py_error + 'a list" where
  "collect [] = Inr []"
| "collect (x # xs) =
     (case x of
        Inl e \<Rightarrow> Inl e
      | Inr v \<Rightarrow> (case collect xs of Inl e \<Rightarrow> Inl e | Inr vs \<Rightarrow> Inr (v # vs)))"

text \<open>The body of the inner loop of \<open>_compare_numeric\<close>.\<close>

definition numeric_cell ::
  "(pyval \<Rightarrow> py_error + pyval) \<Rightarrow> string \<Rightarrow> nat \<Rightarrow> nat \<Rightarrow> CellData option \<Rightarrow> CellData option
     \<Rightarrow> py_error + DiffResult option" where
  "numeric_cell fl sheet_name r c cell_a cell_b =
     (case to_numeric fl cell_a of
        Inl e \<Rightarrow> Inl e
      | Inr val_a \<Rightarrow>
          (case to_numeric fl cell_b of
             Inl e \<Rightarrow> Inl e
           | Inr val_b \<Rightarrow>
               if \<not> py_eq val_a val_b then
                 (let diff_type =
                        (if val_a = PNone \<and> val_b \<noteq> PNone then ADDED
                         else if val_a \<noteq> PNone \<and> val_b = PNone then DELETED
                         else MODIFIED)
                  in Inr (Some (mk_diff sheet_name r c diff_type val_a val_b)))
               else Inr None))"

definition compare_numeric ::
  "(pyval \<Rightarrow> py_error + pyval) \<Rightarrow> SheetData \<Rightarrow> SheetData \<Rightarrow> CompareOptions \<Rightarrow> py_error + DiffResult list" where
  "compare_numeric fl sheet_a sheet_b options =
     (let max_rows = max (row_count sheet_a) (row_count sheet_b);
          max_cols = max (col_count sheet_a) (col_count sheet_b)
      in case collect (concat (map (\<lambda>r. map (\<lambda>c.
                numeric_cell fl (name sheet_a) r c
                  (get_cell sheet_a (int r) (int c)) (get_cell sheet_b (int r) (int c)))
              [0..<max_cols]) [0..<max_rows])) of
           Inl e \<Rightarrow> Inl e
         | Inr ds \<Rightarrow> Inr (List.map_filter id ds))"

definition formula_cell ::
  "string \<Rightarrow> nat \<Rightarrow> nat \<Rightarrow> CellData option \<Rightarrow> CellData option \<Rightarrow> CompareOptions \<Rightarrow> DiffResult option" where
  "formula_cell sheet_name r c cell_a cell_b options =
     (let formula_a = (case cell_a of None \<Rightarrow> None | Some x \<Rightarrow> formula x);
          formula_b = (case cell_b of None \<Rightarrow> None | Some x \<Rightarrow> formula x)
      in if formula_a = None \<and> formula_b = None then
           compare_cells sheet_name r c cell_a cell_b options
         else if formula_a \<noteq> formula_b then
           (let diff_type =
                  (if formula_a = None \<and> formula_b \<noteq> None then ADDED
                   else if formula_a \<noteq> None \<and> formula_b = None then DELETED
                   else MODIFIED)
            in Some ((mk_diff sheet_name r c diff_type (cell_val cell_a) (cell_val cell_b))
                       \<lparr>old_formula := formula_a, new_formula := formula_b\<rparr>))
         else None)"

definition compare_formula :: "SheetData \<Rightarrow> SheetData \<Rightarrow> CompareOptions \<Rightarrow> DiffResult list" where
  "compare_formula sheet_a sheet_b options =
     (let max_rows = max (row_count sheet_a) (row_count sheet_b);
          max_cols = max (col_count sheet_a) (col_count sheet_b)
      in concat (map (\<lambda>r. List.map_filter (\<lambda>c.
                  formula_cell (name sheet_a) r c
                    (get_cell sheet_a (int r) (int c)) (get_cell sheet_b (int r) (int c)) options)
                [0..<max_cols])
         [0..<max_rows]))"

text \<open>
  The cells of rows \<open>lo..<hi\<close> of one sheet that are present and not empty, each
  reported with the given kind: the row loops of \<open>_compare_structure\<close> and, over the
  whole sheet, \<open>_mark_all_cells\<close>.
\<close>

definition mark_rows :: "string \<Rightarrow> SheetData \<Rightarrow> nat \<Rightarrow> nat \<Rightarrow> DiffType \<Rightarrow> bool \<Rightarrow> DiffResult list" where
  "mark_rows sheet_name sh lo hi t is_new =
     concat (map (\<lambda>r. List.map_filter (\<lambda>c.
        case get_cell sh (int r) (int c) of
          None \<Rightarrow> None
        | Some cell \<Rightarrow>
            if \<not> is_empty cell then
              Some (mk_diff sheet_name r c t
                      (if is_new then PNone else val cell) (if is_new then val cell else PNone))
            else None)
        [0..<col_count sh]) [lo..<hi])"

definition compare_structure :: "SheetData \<Rightarrow> SheetData \<Rightarrow> CompareOptions \<Rightarrow> DiffResult list" where
  "compare_structure sheet_a sheet_b options =
     (let row_diffs =
            (if row_count sheet_a \<noteq> row_count sheet_b then
               (if row_count sheet_a < row_count sheet_b
                then mark_rows (name sheet_a) sheet_b (row_count sheet_a) (row_count sheet_b) ADDED True
                else mark_rows (name sheet_a) sheet_a (row_count sheet_b) (row_count sheet_a) DELETED False)
             else []);
          common_rows = min (row_count sheet_a) (row_count sheet_b);
          common_cols = min (col_count sheet_a) (col_count sheet_b)
      in row_diffs @
         concat (map (\<lambda>r. List.map_filter (\<lambda>c.
                  compare_cells (name sheet_a) r c
                    (get_cell sheet_a (int r) (int c)) (get_cell sheet_b (int r) (int c)) options)
                [0..<common_cols])
         [0..<common_rows]))"

definition mark_all_cells :: "SheetData \<Rightarrow> DiffType \<Rightarrow> bool \<Rightarrow> DiffResult list" where
  "mark_all_cells sh t is_new = mark_rows (name sh) sh 0 (row_count sh) t is_new"

text \<open>
  The sheets \<open>compare\<close> visits: \<open>if selected_sheets:\<close> is false for \<open>None\<close> and for the
  empty list.
\<close>

definition sheets_to_compare :: "WorkbookData \<Rightarrow> WorkbookData \<Rightarrow> string list option \<Rightarrow> string set" where
  "sheets_to_compare workbook_a workbook_b selected_sheets =
     (let sheets_a = set (sheet_names workbook_a);
          sheets_b = set (sheet_names workbook_b)
      in case selected_sheets of
           None \<Rightarrow> sheets_a \<union> sheets_b
         | Some sel \<Rightarrow> if sel \<noteq> [] then set sel \<inter> (sheets_a \<union> sheets_b) else sheets_a \<union> sheets_b)"

text \<open>The body of the loop over the sheets: the differences of one sheet name.\<close>

definition compare_sheet ::
  "(pyval \<Rightarrow> py_error + pyval) \<Rightarrow> WorkbookData \<Rightarrow> WorkbookData \<Rightarrow> CompareMode \<Rightarrow> CompareOptions
     \<Rightarrow> string \<Rightarrow> py_error + DiffResult list" where
  "compare_sheet fl workbook_a workbook_b mode options sheet_name =
     (case (get_sheet workbook_a sheet_name, get_sheet workbook_b sheet_name) of
        (None, Some sheet_b) \<Rightarrow> Inr (mark_all_cells sheet_b ADDED True)
      | (Some sheet_a, None) \<Rightarrow> Inr (mark_all_cells sheet_a DELETED False)
      | (Some sheet_a, Some sheet_b) \<Rightarrow>
          (if mode = EXACT then Inr (compare_exact sheet_a sheet_b options)
           else if mode = NUMERIC then compare_numeric fl sheet_a sheet_b options
           else if mode = CompareMode.FORMULA then Inr (compare_formula sheet_a sheet_b options)
           else Inr (compare_structure sheet_a sheet_b options))
      | (None, None) \<Rightarrow> Inl AttributeError)"

text \<open>
  The loop of \<open>compare\<close> over the sheet names, in the order the set yields them
  (\<open>order\<close>): the state is the list of differences and the summary, both updated per
  sheet; an exception leaves no result.
\<close>

fun compare_loop ::
  "(pyval \<Rightarrow> py_error + pyval) \<Rightarrow> WorkbookData \<Rightarrow> WorkbookData \<Rightarrow> CompareMode \<Rightarrow> CompareOptions
     \<Rightarrow> string list \<Rightarrow> DiffResult list \<times> DiffSummary \<Rightarrow> py_error + (DiffResult list \<times> DiffSummary)" where
  "compare_loop fl wa wb mode options [] st = Inr st"
| "compare_loop fl wa wb mode options (n # ns) st =
     (case compare_sheet fl wa wb mode options n of
        Inl e \<Rightarrow> Inl e
      | Inr sheet_diffs \<Rightarrow>
          compare_loop fl wa wb mode options ns
            (fst st @ sheet_diffs, foldl add_diff (snd st) (map diff_type sheet_diffs)))"

definition compare ::
  "(pyval \<Rightarrow> py_error + pyval) \<Rightarrow> WorkbookData \<Rightarrow> WorkbookData \<Rightarrow> CompareMode \<Rightarrow> CompareOptions option
     \<Rightarrow> string list \<Rightarrow> py_error + CompareResult" where
  "compare fl workbook_a workbook_b mode options order =
     (let options = (case options of None \<Rightarrow> default_options | Some ops \<Rightarrow> ops)
      in case compare_loop fl workbook_a workbook_b mode options order ([], empty_summary) of
           Inl e \<Rightarrow> Inl e
         | Inr st \<Rightarrow>
             Inr \<lparr>file_a = file_name workbook_a, file_b = file_name workbook_b,
                  diffs = fst st, summary = snd st\<rparr>)"


section \<open>Sample data\<close>

text \<open>Cells and sheets as the loader builds them, for the worked examples.\<close>

definition text_cell :: "string \<Rightarrow> CellData" where
  "text_cell s = \<lparr>val = PStr s, formula = None, cell_type = STRING, style = None, comment = None\<rparr>"

definition number_cell :: "rat \<Rightarrow> string \<Rightarrow> CellData" where
  "number_cell r t =
     \<lparr>val = PNum r t, formula = None, cell_type = NUMBER, style = None, comment = None\<rparr>"

definition empty_cell :: CellData where
  "empty_cell = \<lparr>val = PNone, formula = None, cell_type = EMPTY, style = None, comment = None\<rparr>"

text \<open>A sheet of the given rows, all of one length, with its counts as the loader sets them.\<close>

definition sheet_of :: "string \<Rightarrow> CellData list list \<Rightarrow> SheetData" where
  "sheet_of n rs =
     \<lparr>name = n, rows = rs, row_count = length rs,
      col_count = (case rs of [] \<Rightarrow> 0 | r # x \<Rightarrow> length r)\<rparr>"

definition workbook_of :: "string \<Rightarrow> SheetData list \<Rightarrow> WorkbookData" where
  "workbook_of f shs =
     \<lparr>file_path = f, file_name = f, file_size = 0, modified_time = [],
      sheets = shs, sheet_names = map name shs\<rparr>"

text \<open>
  The results of the builtin \<open>float\<close> on the arguments of the numeric examples:
  \<open>float("3")\<close> and \<open>float(3)\<close> are \<open>3.0\<close>, and \<open>float("abc")\<close> raises
  \<open>ValueError\<close>.
\<close>

definition float_table :: "pyval \<Rightarrow> py_error + pyval" where
  "float_table v =
     (if v = PStr ''3'' \<or> v = PNum 3 ''3'' then Inr (PNum 3 ''3.0'') else Inl ValueError)"

text \<open>
  The condition \<open>cell and not cell.is_empty()\<close> at a position: the cell is stored in
  \<open>rows\<close> and its value is neither \<open>None\<close> nor the empty string.
\<close>

definition marked :: "SheetData \<Rightarrow> nat \<Rightarrow> nat \<Rightarrow> bool" where
  "marked sh r c = (\<exists>cell. get_cell sh (int r) (int c) = Some cell \<and> \<not> is_empty cell)"

text \<open>The \<open>sheet_diffs\<close> of one pass of the loop of \<open>compare\<close> that did not raise.\<close>

definition sheet_diffs ::
  "(pyval \<Rightarrow> py_error + pyval) \<Rightarrow> WorkbookData \<Rightarrow> WorkbookData \<Rightarrow> CompareMode \<Rightarrow> CompareOptions
     \<Rightarrow> string \<Rightarrow> DiffResult list" where
  "sheet_diffs fl wa wb mode options n =
     (case compare_sheet fl wa wb mode options n of Inr ds \<Rightarrow> ds | Inl e \<Rightarrow> [])"

text \<open>The A-side position of a record.\<close>

definition pos :: "DiffResult \<Rightarrow> nat \<times> nat" where
  "pos d = (row d, col d)"

text \<open>Two workbooks: sheet S1 is in both, sheet S2 only in the second.\<close>

definition wa_demo :: WorkbookData where
  "wa_demo = workbook_of ''a.xlsx'' [sheet_of ''S1'' [[text_cell ''x'']]]"

definition wb_demo :: WorkbookData where
  "wb_demo = workbook_of ''b.xlsx''
     [sheet_of ''S1'' [[text_cell ''y'']], sheet_of ''S2'' [[text_cell ''z'', empty_cell]]]"

section \<open>Compare handlers of the main window (views/main\_window.py)\<close>

subsection \<open>The cell rule of the handlers\<close>

text \<open>
  The comparison value \<open>cmp_a\<close> (\<open>cmp_b\<close>) of \<open>_values_differ\<close>: each side is
  lower-cased and stripped on its own when it is a string.
\<close>

definition cmp_value :: "CompareOptions \<Rightarrow> pyval \<Rightarrow> pyval" where
  "cmp_value options v =
     (let v = (if ignore_case options then lower_if_str v else v)
      in if ignore_whitespace options then strip_if_str v else v)"

definition values_differ :: "pyval \<Rightarrow> pyval \<Rightarrow> CompareOptions \<Rightarrow> bool" where
  "values_differ val_a val_b options =
     (let cmp_a = cmp_value options val_a;
          cmp_b = cmp_value options val_b
      in if ignore_empty_rows options \<and>
            (cmp_a = PNone \<or> py_eq cmp_a (PStr [])) \<and> (cmp_b = PNone \<or> py_eq cmp_b (PStr []))
         then False
         else \<not> py_eq cmp_a cmp_b)"

definition get_diff_type :: "pyval \<Rightarrow> pyval \<Rightarrow> DiffType" where
  "get_diff_type val_a val_b =
     (if (val_a = PNone \<or> py_eq val_a (PStr [])) \<and> py_truthy val_b then ADDED
      else if py_truthy val_a \<and> (val_b = PNone \<or> py_eq val_b (PStr [])) then DELETED
      else MODIFIED)"

subsection \<open>Dictionaries\<close>

text \<open>
  A \<open>dict\<close> is an association list in insertion order: storing under a key that is
  present replaces the value in place, storing under a new key appends.
\<close>

fun dict_set :: "('k \<times> 'v) list \<Rightarrow> 'k \<Rightarrow> 'v \<Rightarrow> ('k \<times> 'v) list" where
  "dict_set [] k v = [(k, v)]"
| "dict_set ((k', v') # d) k v = (if k' = k then (k', v) # d else (k', v') # dict_set d k v)"

text \<open>\<open>if k not in d: d[k] = []\<close> followed by \<open>d[k].append(x)\<close>.\<close>

fun dict_append :: "('k \<times> 'v list) list \<Rightarrow> 'k \<Rightarrow> 'v \<Rightarrow> ('k \<times> 'v list) list" where
  "dict_append [] k x = [(k, [x])]"
| "dict_append ((k', xs) # d) k x =
     (if k' = k then (k', xs @ [x]) # d else (k', xs) # dict_append d k x)"

text \<open>\<open>d.get(k, [])\<close>.\<close>

definition dict_get_list :: "('k \<times> 'v list) list \<Rightarrow> 'k \<Rightarrow> 'v list" where
  "dict_get_list d k = (case map_of d k of None \<Rightarrow> [] | Some xs \<Rightarrow> xs)"

subsection \<open>Header matching\<close>

text \<open>The key of a header cell: \<open>str(val).strip().lower()\<close>, whatever the options.\<close>

definition header_key :: "pyval \<Rightarrow> string" where
  "header_key v = py_lower (py_strip (py_str v))"

text \<open>
  The loop that fills \<open>headers_a\<close> (and \<open>headers_b\<close>) from the values of the header
  row, column by column: a later column with the same key replaces the earlier one.
\<close>

definition header_map :: "pyval list \<Rightarrow> (string \<times> nat) list" where
  "header_map vals =
     foldl (\<lambda>d (i, v). if not_blank v then dict_set d (header_key v) i else d) []
       (enumerate 0 vals)"

text \<open>
  \<open>for header, col_a in headers_a.items(): if header in headers_b:
  col_map_a_to_b[col_a] = headers_b[header]\<close>.
\<close>

definition build_col_map :: "(string \<times> nat) list \<Rightarrow> (string \<times> nat) list \<Rightarrow> (nat \<times> nat) list" where
  "build_col_map headers_a headers_b =
     foldl (\<lambda>m (header, col_a).
              case map_of headers_b header of
                Some cb \<Rightarrow> dict_set m col_a cb
              | None \<Rightarrow> m) [] headers_a"

text \<open>The values of one row of a sheet over its \<open>col_count\<close> columns.\<close>

definition extract_row_data :: "SheetData \<Rightarrow> int \<Rightarrow> pyval list" where
  "extract_row_data sh row_idx =
     map (\<lambda>c. cell_val (get_cell sh row_idx (int c))) [0..<col_count sh]"

text \<open>The column map of \<open>_compare_with_smart_match\<close> for one pair of sheets.\<close>

definition sheet_col_map :: "SheetData \<Rightarrow> SheetData \<Rightarrow> int option \<Rightarrow> (nat \<times> nat) list" where
  "sheet_col_map sheet_a sheet_b header_row =
     (case header_row of
        None \<Rightarrow> []
      | Some h \<Rightarrow>
          build_col_map (header_map (extract_row_data sheet_a h))
                        (header_map (extract_row_data sheet_b h)))"

subsection \<open>Composite keys\<close>

text \<open>
  \<open>row_data[c] if c < len(row_data) else None\<close> for a configured column \<open>c\<close>: the
  comparison raises \<open>TypeError\<close> when \<open>c\<close> is \<open>None\<close>, and a negative \<open>c\<close> indexes
  from the end or raises \<open>IndexError\<close>.
\<close>

definition row_at :: "pyval list \<Rightarrow> int option \<Rightarrow> py_error + pyval" where
  "row_at row_data c =
     (case c of
        None \<Rightarrow> Inl TypeError
      | Some i \<Rightarrow>
          if i < int (length row_data) then
            (if 0 \<le> i then Inr (row_data ! nat i)
             else if - int (length row_data) \<le> i then Inr (row_data ! nat (int (length row_data) + i))
             else Inl IndexError)
          else Inr PNone)"

text \<open>\<open>row_data[c] if c < len(row_data) else None\<close> for a column index of a loop.\<close>

definition row_get :: "pyval list \<Rightarrow> nat \<Rightarrow> pyval" where
  "row_get row_data c = (if c < length row_data then row_data ! c else PNone)"

text \<open>\<open>make_key\<close>, always called without a column map.\<close>

definition make_key :: "pyval list \<Rightarrow> int option \<Rightarrow> int option \<Rightarrow> CompareOptions \<Rightarrow> py_error + string option" where
  "make_key row_data col1 col2 options =
     (case row_at row_data col1 of
        Inl e \<Rightarrow> Inl e
      | Inr val1 \<Rightarrow>
          if val1 = PNone \<or> py_strip (py_str val1) = [] then Inr None
          else
            (let key = py_strip (py_str val1) in
             case (case col2 of
                     None \<Rightarrow> Inr key
                   | Some c2 \<Rightarrow>
                       (case row_at row_data (Some c2) of
                          Inl e \<Rightarrow> Inl e
                        | Inr val2 \<Rightarrow>
                            Inr (if val2 \<noteq> PNone \<and> py_strip (py_str val2) \<noteq> []
                                 then key @ ''|'' @ py_strip (py_str val2) else key))) of
               Inl e \<Rightarrow> Inl e
             | Inr key \<Rightarrow> Inr (Some (if ignore_case options then py_lower key else key))))"

type_synonym keyed_rows = "(string \<times> (nat \<times> pyval list) list) list"

text \<open>
  The loop that fills \<open>rows_a\<close> (and \<open>rows_b\<close>) from the rows to be keyed, given with
  their row indices: a row whose key is \<open>None\<close> or empty is left out, every other row
  is appended to the list of its key. An exception of \<open>make_key\<close> ends the loop.
\<close>

fun build_rows ::
  "int option \<Rightarrow> int option \<Rightarrow> CompareOptions \<Rightarrow> (nat \<times> pyval list) list \<Rightarrow> keyed_rows
     \<Rightarrow> py_error + keyed_rows" where
  "build_rows col1 col2 options [] d = Inr d"
| "build_rows col1 col2 options ((row_idx, row_data) # rest) d =
     (case make_key row_data col1 col2 options of
        Inl e \<Rightarrow> Inl e
      | Inr None \<Rightarrow> build_rows col1 col2 options rest d
      | Inr (Some norm_key) \<Rightarrow>
          if norm_key \<noteq> [] then
            build_rows col1 col2 options rest (dict_append d norm_key (row_idx, row_data))
          else build_rows col1 col2 options rest d)"

subsection \<open>Greedy matching of the rows of one key\<close>

text \<open>All pairs \<open>(dist, i, j)\<close>, \<open>i\<close> in the outer loop and \<open>j\<close> in the inner one.\<close>

definition candidate_pairs :: "(nat \<times> 'r) list \<Rightarrow> (nat \<times> 'r) list \<Rightarrow> (nat \<times> nat \<times> nat) list" where
  "candidate_pairs list_a list_b =
     concat (map (\<lambda>i. map (\<lambda>j.
        (nat \<bar>int (fst (list_a ! i)) - int (fst (list_b ! j))\<bar>, i, j))
        [0..<length list_b]) [0..<length list_a])"

text \<open>
  \<open>pairs.sort(key=lambda x: x[0])\<close>: Python's sort is stable, as \<open>sort_key\<close> is.
\<close>

definition sorted_pairs :: "(nat \<times> 'r) list \<Rightarrow> (nat \<times> 'r) list \<Rightarrow> (nat \<times> nat \<times> nat) list" where
  "sorted_pairs list_a list_b = sort_key fst (candidate_pairs list_a list_b)"

text \<open>
  The greedy choice: the state is \<open>matches\<close> (as index pairs), \<open>used_a\<close> and
  \<open>used_b\<close>.
\<close>

fun greedy :: "(nat \<times> nat \<times> nat) list \<Rightarrow> (nat \<times> nat) list \<times> nat set \<times> nat set
                 \<Rightarrow> (nat \<times> nat) list \<times> nat set \<times> nat set" where
  "greedy [] st = st"
| "greedy ((d, i, j) # ps) (matches, used_a, used_b) =
     (if i \<notin> used_a \<and> j \<notin> used_b
      then greedy ps (matches @ [(i, j)], insert i used_a, insert j used_b)
      else greedy ps (matches, used_a, used_b))"

definition greedy_match :: "(nat \<times> 'r) list \<Rightarrow> (nat \<times> 'r) list \<Rightarrow> (nat \<times> nat) list \<times> nat set \<times> nat set" where
  "greedy_match list_a list_b = greedy (sorted_pairs list_a list_b) ([], {}, {})"

subsection \<open>The records of one key\<close>

text \<open>
  The comparison of one matched pair of rows. \<open>skip ca cb\<close> is the test for the
  key columns, \<open>off_a\<close> and \<open>off_b\<close> are the column offsets of the records (0 for a
  whole sheet, the first column of the rectangle for a selection). With a column map
  the mapped columns are compared in the map's order, without one every column index of
  the longer row.
\<close>

definition compare_matched ::
  "string \<Rightarrow> (nat \<times> nat) list \<Rightarrow> (nat \<Rightarrow> nat \<Rightarrow> bool) \<Rightarrow> nat \<Rightarrow> nat \<Rightarrow> CompareOptions
     \<Rightarrow> (nat \<times> pyval list) \<Rightarrow> (nat \<times> pyval list) \<Rightarrow> DiffResult list" where
  "compare_matched sheet_name col_map_a_to_b skip off_a off_b options ra rb =
     (let row_idx_a = fst ra; row_data_a = snd ra; row_idx_b = fst rb; row_data_b = snd rb;
          cols = (if col_map_a_to_b \<noteq> [] then col_map_a_to_b
                  else map (\<lambda>c. (c, c)) [0..<max (length row_data_a) (length row_data_b)])
      in List.map_filter (\<lambda>(ca, cb).
           if skip ca cb then None
           else
             (let val_a = row_get row_data_a ca; val_b = row_get row_data_b cb
              in if values_differ val_a val_b options then
                   Some (mk_diff_b sheet_name row_idx_a (off_a + ca) (get_diff_type val_a val_b)
                           val_a val_b row_idx_b (off_b + cb))
                 else None)) cols)"

text \<open>An unmatched row of A: one Deleted record per cell that is not blank.\<close>

definition deleted_row :: "string \<Rightarrow> nat \<Rightarrow> (nat \<times> pyval list) \<Rightarrow> DiffResult list" where
  "deleted_row sheet_name off_a ra =
     List.map_filter (\<lambda>(col_idx, v).
        if not_blank v then Some (mk_diff sheet_name (fst ra) (off_a + col_idx) DELETED v PNone)
        else None) (enumerate 0 (snd ra))"

text \<open>An unmatched row of B: one Added record per cell that is not blank.\<close>

definition added_row :: "string \<Rightarrow> nat \<Rightarrow> (nat \<times> pyval list) \<Rightarrow> DiffResult list" where
  "added_row sheet_name off_b rb =
     List.map_filter (\<lambda>(col_idx, v).
        if not_blank v then
          Some (mk_diff_b sheet_name (fst rb) (off_b + col_idx) ADDED PNone v (fst rb) (off_b + col_idx))
        else None) (enumerate 0 (snd rb))"

text \<open>
  The body of the loop over the keys: the matched pairs first, then the unmatched rows
  of A in list order, then the unmatched rows of B.
\<close>

definition process_key ::
  "string \<Rightarrow> (nat \<times> nat) list \<Rightarrow> (nat \<Rightarrow> nat \<Rightarrow> bool) \<Rightarrow> nat \<Rightarrow> nat \<Rightarrow> CompareOptions
     \<Rightarrow> (nat \<times> pyval list) list \<Rightarrow> (nat \<times> pyval list) list \<Rightarrow> DiffResult list" where
  "process_key sheet_name col_map_a_to_b skip off_a off_b options list_a list_b =
     (let (matches, used_a, used_b) = greedy_match list_a list_b
      in concat (map (\<lambda>(i, j).
             compare_matched sheet_name col_map_a_to_b skip off_a off_b options (list_a ! i) (list_b ! j))
           matches) @
         concat (map (\<lambda>i. if i \<notin> used_a then deleted_row sheet_name off_a (list_a ! i) else [])
           [0..<length list_a]) @
         concat (map (\<lambda>j. if j \<notin> used_b then added_row sheet_name off_b (list_b ! j) else [])
           [0..<length list_b]))"

text \<open>
  The loop \<open>for key in all_keys\<close>. \<open>all_keys\<close> is a set of strings; \<open>key_order\<close> is
  the order in which the set yields them.
\<close>

definition process_keys ::
  "string \<Rightarrow> (nat \<times> nat) list \<Rightarrow> (nat \<Rightarrow> nat \<Rightarrow> bool) \<Rightarrow> nat \<Rightarrow> nat \<Rightarrow> CompareOptions
     \<Rightarrow> keyed_rows \<Rightarrow> keyed_rows \<Rightarrow> string list \<Rightarrow> DiffResult list" where
  "process_keys sheet_name col_map_a_to_b skip off_a off_b options rows_a rows_b key_order =
     concat (map (\<lambda>key.
        process_key sheet_name col_map_a_to_b skip off_a off_b options
          (dict_get_list rows_a key) (dict_get_list rows_b key)) key_order)"

definition all_keys :: "keyed_rows \<Rightarrow> keyed_rows \<Rightarrow> string set" where
  "all_keys rows_a rows_b = set (map fst rows_a) \<union> set (map fst rows_b)"

subsection \<open>\_compare\_with\_smart\_match\<close>

text \<open>
  The key configuration: the two key columns of file A and of file B, each a 0-based
  index or \<open>None\<close>.
\<close>

record KeyConfig =
  key_col1_a :: "int option"
  key_col2_a :: "int option"
  key_col1_b :: "int option"
  key_col2_b :: "int option"

text \<open>The skip test for the key columns, on either side.\<close>

definition skip_key_cols :: "KeyConfig \<Rightarrow> nat \<Rightarrow> nat \<Rightarrow> bool" where
  "skip_key_cols kc ca cb =
     (Some (int ca) = key_col1_a kc \<or> Some (int ca) = key_col2_a kc \<or>
      Some (int cb) = key_col1_b kc \<or> Some (int cb) = key_col2_b kc)"

text \<open>The rows of a sheet that are keyed: every row index but the header row.\<close>

definition keyed_candidates :: "SheetData \<Rightarrow> int option \<Rightarrow> (nat \<times> pyval list) list" where
  "keyed_candidates sh header_row =
     map (\<lambda>row_idx. (row_idx, extract_row_data sh (int row_idx)))
       (filter (\<lambda>row_idx. \<not> (header_row \<noteq> None \<and> Some (int row_idx) = header_row))
          [0..<row_count sh])"

text \<open>
  The rows compared when no key column is configured: row by row, the mapped columns
  only; without a column map nothing is compared.
\<close>

definition header_only_rows ::
  "string \<Rightarrow> SheetData \<Rightarrow> SheetData \<Rightarrow> int option \<Rightarrow> (nat \<times> nat) list \<Rightarrow> CompareOptions
     \<Rightarrow> DiffResult list" where
  "header_only_rows sheet_name sheet_a sheet_b header_row col_map_a_to_b options =
     concat (map (\<lambda>row_idx.
        if header_row \<noteq> None \<and> Some (int row_idx) = header_row then []
        else
          (let row_data_a = (if row_idx < row_count sheet_a
                             then extract_row_data sheet_a (int row_idx) else []);
               row_data_b = (if row_idx < row_count sheet_b
                             then extract_row_data sheet_b (int row_idx) else [])
           in if col_map_a_to_b \<noteq> [] then
                List.map_filter (\<lambda>(ca, cb).
                  (let val_a = row_get row_data_a ca; val_b = row_get row_data_b cb
                   in if values_differ val_a val_b options then
                        Some (mk_diff_b sheet_name row_idx ca (get_diff_type val_a val_b)
                                val_a val_b row_idx cb)
                      else None)) col_map_a_to_b
              else []))
       [0..<max (row_count sheet_a) (row_count sheet_b)])"

text \<open>
  The body of the loop over the sheets, for one pair of sheets. With a first key column
  for A the rows are matched by key, \<open>key_order\<close> being the order in which the set of
  keys is iterated; otherwise rows are matched by position.
\<close>

definition smart_match_sheet ::
  "string \<Rightarrow> SheetData \<Rightarrow> SheetData \<Rightarrow> KeyConfig \<Rightarrow> int option \<Rightarrow> CompareOptions \<Rightarrow> string list
     \<Rightarrow> py_error + DiffResult list" where
  "smart_match_sheet sheet_name sheet_a sheet_b kc header_row options key_order =
     (let col_map_a_to_b = sheet_col_map sheet_a sheet_b header_row
      in if key_col1_a kc \<noteq> None then
           (case build_rows (key_col1_a kc) (key_col2_a kc) options
                   (keyed_candidates sheet_a header_row) [] of
              Inl e \<Rightarrow> Inl e
            | Inr rows_a \<Rightarrow>
                (case build_rows (key_col1_b kc) (key_col2_b kc) options
                        (keyed_candidates sheet_b header_row) [] of
                   Inl e \<Rightarrow> Inl e
                 | Inr rows_b \<Rightarrow>
                     Inr (process_keys sheet_name col_map_a_to_b (skip_key_cols kc) 0 0 options
                            rows_a rows_b key_order)))
         else Inr (header_only_rows sheet_name sheet_a sheet_b header_row col_map_a_to_b options))"

text \<open>
  The sheets the handler visits, in order: the selected names that are in both
  workbooks, or the names of A that are in B.
\<close>

definition smart_sheets :: "WorkbookData \<Rightarrow> WorkbookData \<Rightarrow> string list option \<Rightarrow> string list" where
  "smart_sheets workbook_a workbook_b selected_sheets =
     (let sheets_a = sheet_names workbook_a; sheets_b = sheet_names workbook_b
      in case selected_sheets of
           None \<Rightarrow> filter (\<lambda>s. s \<in> set sheets_b) sheets_a
         | Some sel \<Rightarrow>
             if sel \<noteq> [] then filter (\<lambda>s. s \<in> set sheets_a \<and> s \<in> set sheets_b) sel
             else filter (\<lambda>s. s \<in> set sheets_b) sheets_a)"

text \<open>
  \<open>_compare_with_smart_match\<close>: the differences of the visited sheets, one after the
  other, and the summary folded over them. \<open>key_orders\<close> gives, for a sheet name, the
  order in which its set of keys is iterated. A name without a sheet in both workbooks
  is passed over.
\<close>

fun smart_match_loop ::
  "WorkbookData \<Rightarrow> WorkbookData \<Rightarrow> KeyConfig \<Rightarrow> int option \<Rightarrow> CompareOptions
     \<Rightarrow> (string \<Rightarrow> string list) \<Rightarrow> string list \<Rightarrow> DiffResult list \<Rightarrow> py_error + DiffResult list" where
  "smart_match_loop wa wb kc header_row options key_orders [] all_diffs = Inr all_diffs"
| "smart_match_loop wa wb kc header_row options key_orders (n # ns) all_diffs =
     (case (get_sheet wa n, get_sheet wb n) of
        (Some sheet_a, Some sheet_b) \<Rightarrow>
          (case smart_match_sheet n sheet_a sheet_b kc header_row options (key_orders n) of
             Inl e \<Rightarrow> Inl e
           | Inr ds \<Rightarrow> smart_match_loop wa wb kc header_row options key_orders ns (all_diffs @ ds))
      | _ \<Rightarrow> smart_match_loop wa wb kc header_row options key_orders ns all_diffs)"

definition compare_with_smart_match ::
  "WorkbookData \<Rightarrow> WorkbookData \<Rightarrow> KeyConfig \<Rightarrow> int option \<Rightarrow> CompareOptions \<Rightarrow> string list option
     \<Rightarrow> (string \<Rightarrow> string list) \<Rightarrow> py_error + CompareResult" where
  "compare_with_smart_match workbook_a workbook_b kc header_row options selected_sheets key_orders =
     (case smart_match_loop workbook_a workbook_b kc header_row options key_orders
             (smart_sheets workbook_a workbook_b selected_sheets) [] of
        Inl e \<Rightarrow> Inl e
      | Inr all_diffs \<Rightarrow>
          Inr \<lparr>file_a = file_name workbook_a, file_b = file_name workbook_b, diffs = all_diffs,
               summary = foldl add_diff empty_summary (map diff_type all_diffs)\<rparr>)"

subsection \<open>\_compare\_selection\<close>

text \<open>A selected rectangle \<open>(min_row, min_col, max_row, max_col)\<close>, 0-based, inclusive.\<close>

record SelRange =
  min_row :: nat
  min_col :: nat
  max_row :: nat
  max_col :: nat

definition sel_rows :: "SelRange \<Rightarrow> int" where
  "sel_rows rng = int (max_row rng) - int (min_row rng) + 1"

definition sel_cols :: "SelRange \<Rightarrow> int" where
  "sel_cols rng = int (max_col rng) - int (min_col rng) + 1"

text \<open>The rows of the rectangle with their absolute row indices.\<close>

definition extract_sel_data :: "SheetData \<Rightarrow> SelRange \<Rightarrow> (nat \<times> pyval list) list" where
  "extract_sel_data sh rng =
     map (\<lambda>row_idx.
            (row_idx, map (\<lambda>col_idx. cell_val (get_cell sh (int row_idx) (int col_idx)))
                        [min_col rng..<max_col rng + 1]))
       [min_row rng..<max_row rng + 1]"

text \<open>
  The column map and the offset of the first data row: from an external header row
  (read from the sheets, over the column span of A), from a header row inside both
  rectangles, or none.
\<close>

definition sel_col_map ::
  "SheetData \<Rightarrow> SheetData \<Rightarrow> SelRange \<Rightarrow> SelRange \<Rightarrow> (nat \<times> pyval list) list
     \<Rightarrow> (nat \<times> pyval list) list \<Rightarrow> nat option \<Rightarrow> int option \<Rightarrow> (nat \<times> nat) list \<times> nat" where
  "sel_col_map sheet_a sheet_b range_a range_b data_a data_b header_row external_header_row =
     (case external_header_row of
        Some ext \<Rightarrow>
          (build_col_map
             (header_map (map (\<lambda>col_offset.
                cell_val (get_cell sheet_a ext (int (min_col range_a + col_offset))))
                [0..<nat (sel_cols range_a)]))
             (header_map (map (\<lambda>col_offset.
                cell_val (get_cell sheet_b ext (int (min_col range_b + col_offset))))
                [0..<nat (sel_cols range_a)])), 0)
      | None \<Rightarrow>
          (case header_row of
             Some h \<Rightarrow>
               if h < length data_a \<and> h < length data_b then
                 (build_col_map (header_map (snd (data_a ! h))) (header_map (snd (data_b ! h))), h + 1)
               else ([], 0)
           | None \<Rightarrow> ([], 0)))"

definition skip_sel_key_cols :: "int option \<Rightarrow> int option \<Rightarrow> nat \<Rightarrow> nat \<Rightarrow> bool" where
  "skip_sel_key_cols key_col1 key_col2 ca cb =
     (Some (int ca) = key_col1 \<or> Some (int ca) = key_col2)"

text \<open>The rows compared by position when the selection has no key column.\<close>

definition sel_header_only_rows ::
  "string \<Rightarrow> SelRange \<Rightarrow> SelRange \<Rightarrow> (nat \<times> pyval list) list \<Rightarrow> (nat \<times> pyval list) list
     \<Rightarrow> (nat \<times> nat) list \<Rightarrow> nat \<Rightarrow> CompareOptions \<Rightarrow> DiffResult list" where
  "sel_header_only_rows sheet_name range_a range_b data_a data_b col_map_a_to_b data_start_offset options =
     concat (map (\<lambda>i.
        (let ra = (if i < length data_a then data_a ! i else (min_row range_a + i, []));
             rb = (if i < length data_b then data_b ! i else (min_row range_b + i, []))
         in if col_map_a_to_b \<noteq> [] then
              List.map_filter (\<lambda>(ca, cb).
                (let val_a = row_get (snd ra) ca; val_b = row_get (snd rb) cb
                 in if values_differ val_a val_b options then
                      Some (mk_diff_b sheet_name (fst ra) (min_col range_a + ca)
                              (get_diff_type val_a val_b) val_a val_b (fst rb) (min_col range_b + cb))
                    else None)) col_map_a_to_b
            else []))
       [data_start_offset..<max (length data_a) (length data_b)])"

definition compare_selection_smart ::
  "string \<Rightarrow> SheetData \<Rightarrow> SheetData \<Rightarrow> SelRange \<Rightarrow> SelRange \<Rightarrow> int option \<Rightarrow> int option
     \<Rightarrow> nat option \<Rightarrow> CompareOptions \<Rightarrow> int option \<Rightarrow> string list \<Rightarrow> py_error + DiffResult list" where
  "compare_selection_smart sheet_name sheet_a sheet_b range_a range_b key_col1 key_col2 header_row
       options external_header_row key_order =
     (let data_a = extract_sel_data sheet_a range_a;
          data_b = extract_sel_data sheet_b range_b;
          (col_map_a_to_b, data_start_offset) =
             sel_col_map sheet_a sheet_b range_a range_b data_a data_b header_row external_header_row
      in if key_col1 \<noteq> None then
           (case build_rows key_col1 key_col2 options (drop data_start_offset data_a) [] of
              Inl e \<Rightarrow> Inl e
            | Inr rows_a \<Rightarrow>
                (case build_rows key_col1 key_col2 options (drop data_start_offset data_b) [] of
                   Inl e \<Rightarrow> Inl e
                 | Inr rows_b \<Rightarrow>
                     Inr (process_keys sheet_name col_map_a_to_b (skip_sel_key_cols key_col1 key_col2)
                            (min_col range_a) (min_col range_b) options rows_a rows_b key_order)))
         else Inr (sel_header_only_rows sheet_name range_a range_b data_a data_b col_map_a_to_b
                     data_start_offset options))"

text \<open>\<open>_compare_by_position\<close> of the main window: cell by cell over the rectangle of A.\<close>

definition compare_by_position_sel ::
  "string \<Rightarrow> SheetData \<Rightarrow> SheetData \<Rightarrow> SelRange \<Rightarrow> SelRange \<Rightarrow> CompareOptions \<Rightarrow> DiffResult list" where
  "compare_by_position_sel sheet_name sheet_a sheet_b range_a range_b options =
     concat (map (\<lambda>row_offset. List.map_filter (\<lambda>col_offset.
        (let ra = min_row range_a + row_offset; ca = min_col range_a + col_offset;
             rb = min_row range_b + row_offset; cb = min_col range_b + col_offset;
             val_a = cell_val (get_cell sheet_a (int ra) (int ca));
             val_b = cell_val (get_cell sheet_b (int rb) (int cb))
         in if values_differ val_a val_b options then
              Some (mk_diff_b sheet_name ra ca (get_diff_type val_a val_b) val_a val_b rb cb)
            else None))
        [0..<nat (sel_cols range_a)]) [0..<nat (sel_rows range_a)])"

text \<open>
  What the handler ends with: a warning dialog and no result, a result, or the error
  dialog of an exception caught in its \<open>try\<close> block.
\<close>

datatype warning =
    NotLoaded
  | NoSelection
  | ColumnCountMismatch
  | KeyColumnOutsideSelection
  | RowCountMismatch
  | SheetMissing

datatype outcome = Warned warning | Compared CompareResult | Critical py_error

definition compare_selection ::
  "WorkbookData option \<Rightarrow> WorkbookData option \<Rightarrow> string \<Rightarrow> SelRange option \<Rightarrow> SelRange option
     \<Rightarrow> KeyConfig \<Rightarrow> int option \<Rightarrow> CompareOptions \<Rightarrow> string list \<Rightarrow> outcome" where
  "compare_selection workbook_a workbook_b sheet_name range_a range_b key_config header_row_abs
       options key_order =
     (case (workbook_a, workbook_b) of
        (Some wa, Some wb) \<Rightarrow>
          (case (range_a, range_b) of
             (Some rng_a, Some rng_b) \<Rightarrow>
               (let rows_a = sel_rows rng_a; cols_a = sel_cols rng_a;
                    rows_b = sel_rows rng_b; cols_b = sel_cols rng_b
                in if cols_a \<noteq> cols_b then Warned ColumnCountMismatch
                   else
                     (let key_col1 = map_option (\<lambda>k. k - int (min_col rng_a)) (key_col1_a key_config);
                          key_col2 = map_option (\<lambda>k. k - int (min_col rng_a)) (key_col2_a key_config);
                          use_external_header =
                            (case header_row_abs of
                               None \<Rightarrow> False
                             | Some h \<Rightarrow> h < int (min_row rng_a) \<or> h > int (max_row rng_a));
                          header_row =
                            (case header_row_abs of
                               None \<Rightarrow> None
                             | Some h \<Rightarrow>
                                 if h < int (min_row rng_a) \<or> h > int (max_row rng_a) then None
                                 else Some (nat (h - int (min_row rng_a))))
                      in if (case key_col1 of None \<Rightarrow> False | Some k \<Rightarrow> k < 0 \<or> k \<ge> cols_a)
                         then Warned KeyColumnOutsideSelection
                         else if key_col1 = None \<and> rows_a \<noteq> rows_b then Warned RowCountMismatch
                         else
                           (case (get_sheet wa sheet_name, get_sheet wb sheet_name) of
                              (Some sheet_a, Some sheet_b) \<Rightarrow>
                                (case (if key_col1 \<noteq> None \<or> header_row \<noteq> None \<or> use_external_header
                                       then compare_selection_smart sheet_name sheet_a sheet_b rng_a rng_b
                                              key_col1 key_col2 header_row options
                                              (if use_external_header then header_row_abs else None)
                                              key_order
                                       else Inr (compare_by_position_sel sheet_name sheet_a sheet_b
                                                   rng_a rng_b options)) of
                                   Inl e \<Rightarrow> Critical e
                                 | Inr ds \<Rightarrow>
                                     Compared \<lparr>file_a = file_name wa, file_b = file_name wb, diffs = ds,
                                       summary = foldl add_diff empty_summary (map diff_type ds)\<rparr>)
                            | _ \<Rightarrow> Warned SheetMissing)))
           | _ \<Rightarrow> Warned NoSelection)
      | _ \<Rightarrow> Warned NotLoaded)"

section \<open>SmartCompareService (services/smart\_compare\_service.py)\<close>

record CellRange =
  start_row :: nat
  start_col :: nat
  end_row :: nat
  end_col :: nat

text \<open>
  The options of the service. Its three ignore switches are written with the prefix
  \<open>smart\<close> here, to keep them apart from the fields of \<open>CompareOptions\<close>. The
  header row index is relative to the region and not negative; the key column index is
  the integer the caller computed (\<open>-1\<close> for the designator \<open>0\<close>).
\<close>

record SmartCompareOptions =
  range_a :: "CellRange option"
  range_b :: "CellRange option"
  use_header_row :: bool
  header_row_index :: nat
  use_key_column :: bool
  key_column_index :: int
  smart_ignore_case :: bool
  smart_ignore_whitespace :: bool
  smart_ignore_empty_rows :: bool

definition extract_range_data :: "SheetData \<Rightarrow> CellRange option \<Rightarrow> pyval list list" where
  "extract_range_data sh cell_range =
     (case cell_range of
        None \<Rightarrow> map (map val) (rows sh)
      | Some rng \<Rightarrow>
          map (\<lambda>row_idx. map (\<lambda>col_idx. cell_val (get_cell sh (int row_idx) (int col_idx)))
                            [start_col rng..<end_col rng + 1])
            [start_row rng..<end_row rng + 1])"

text \<open>
  The comparison values \<open>cmp_a\<close>, \<open>cmp_b\<close> of the service: each side is lower-cased
  and stripped on its own.
\<close>

definition smart_norm :: "SmartCompareOptions \<Rightarrow> pyval \<Rightarrow> pyval" where
  "smart_norm options v =
     (let v = (if smart_ignore_case options then lower_if_str v else v)
      in if smart_ignore_whitespace options then strip_if_str v else v)"

definition smart_diff_type :: "pyval \<Rightarrow> pyval \<Rightarrow> DiffType" where
  "smart_diff_type val_a val_b =
     (if (val_a = PNone \<or> py_eq val_a (PStr [])) \<and> val_b \<noteq> PNone then ADDED
      else if val_a \<noteq> PNone \<and> (val_b = PNone \<or> py_eq val_b (PStr [])) then DELETED
      else MODIFIED)"

text \<open>
  The cell comparison the three paths of the service share: the record of a pair of
  values whose comparison values are unequal.
\<close>

definition smart_cell ::
  "string \<Rightarrow> nat \<Rightarrow> nat \<Rightarrow> SmartCompareOptions \<Rightarrow> pyval \<Rightarrow> pyval \<Rightarrow> DiffResult option" where
  "smart_cell sheet_name r c options val_a val_b =
     (if \<not> py_eq (smart_norm options val_a) (smart_norm options val_b)
      then Some (mk_diff sheet_name r c (smart_diff_type val_a val_b) val_a val_b)
      else None)"

text \<open>
  The same, after the test of the header and position paths that skips a pair of empty
  values when \<open>ignore_empty_rows\<close> is set.
\<close>

definition smart_cell_skip_empty ::
  "string \<Rightarrow> nat \<Rightarrow> nat \<Rightarrow> SmartCompareOptions \<Rightarrow> pyval \<Rightarrow> pyval \<Rightarrow> DiffResult option" where
  "smart_cell_skip_empty sheet_name r c options val_a val_b =
     (if smart_ignore_empty_rows options \<and> (val_a = PNone \<or> py_eq val_a (PStr [])) \<and>
         (val_b = PNone \<or> py_eq val_b (PStr []))
      then None
      else smart_cell sheet_name r c options val_a val_b)"

subsection \<open>\_compare\_by\_key\<close>

text \<open>
  A \<open>dict\<close> whose keys are cell values: two keys are the same key when they are equal
  (\<open>1\<close>, \<open>1.0\<close> and \<open>True\<close> are one key), and the first key stored stays.
\<close>

fun pdict_set :: "(pyval \<times> 'v) list \<Rightarrow> pyval \<Rightarrow> 'v \<Rightarrow> (pyval \<times> 'v) list" where
  "pdict_set [] k v = [(k, v)]"
| "pdict_set ((k', v') # d) k v =
     (if py_eq k' k then (k', v) # d else (k', v') # pdict_set d k v)"

fun pdict_get :: "(pyval \<times> 'v) list \<Rightarrow> pyval \<Rightarrow> 'v option" where
  "pdict_get [] k = None"
| "pdict_get ((k', v) # d) k = (if py_eq k' k then Some v else pdict_get d k)"

text \<open>\<open>row[key_col]\<close> under the guard \<open>len(row) > key_col\<close>.\<close>

definition key_cell :: "pyval list \<Rightarrow> int \<Rightarrow> py_error + pyval option" where
  "key_cell r key_col =
     (if int (length r) > key_col then
        (if 0 \<le> key_col then Inr (Some (r ! nat key_col))
         else if - int (length r) \<le> key_col then Inr (Some (r ! nat (int (length r) + key_col)))
         else Inl IndexError)
      else Inr None)"

text \<open>
  \<open>build_key_map\<close>: one entry per key, \<open>key_map[key] = (i, row)\<close>, so a later row with
  the same key replaces the earlier one.
\<close>

fun key_map_loop ::
  "SmartCompareOptions \<Rightarrow> (nat \<times> pyval list) list \<Rightarrow> (pyval \<times> nat \<times> pyval list) list
     \<Rightarrow> py_error + (pyval \<times> nat \<times> pyval list) list" where
  "key_map_loop options [] key_map = Inr key_map"
| "key_map_loop options ((i, r) # rest) key_map =
     (case key_cell r (key_column_index options) of
        Inl e \<Rightarrow> Inl e
      | Inr None \<Rightarrow> key_map_loop options rest key_map
      | Inr (Some key) \<Rightarrow>
          if key \<noteq> PNone \<and> \<not> py_eq key (PStr []) then
            key_map_loop options rest (pdict_set key_map (smart_norm options key) (i, r))
          else key_map_loop options rest key_map)"

definition build_key_map ::
  "SmartCompareOptions \<Rightarrow> pyval list list \<Rightarrow> bool \<Rightarrow> py_error + (pyval \<times> nat \<times> pyval list) list" where
  "build_key_map options data skip_header =
     (let start = (if skip_header then header_row_index options + 1 else 0)
      in key_map_loop options (drop start (enumerate 0 data)) [])"

text \<open>The records of a row that is only in one of the two maps.\<close>

definition smart_row_records ::
  "string \<Rightarrow> nat \<Rightarrow> nat \<Rightarrow> DiffType \<Rightarrow> (nat \<times> pyval list) \<Rightarrow> DiffResult list" where
  "smart_row_records sheet_name row_offset col_offset t entry =
     List.map_filter (\<lambda>(col_idx, v).
        if v \<noteq> PNone \<and> \<not> py_eq v (PStr []) then
          Some (mk_diff sheet_name (fst entry + row_offset) (col_idx + col_offset) t
                  (if t = ADDED then PNone else v) (if t = ADDED then v else PNone))
        else None) (enumerate 0 (snd entry))"

text \<open>The body of the loop over the sorted keys.\<close>

definition smart_key_records ::
  "string \<Rightarrow> SmartCompareOptions \<Rightarrow> nat \<Rightarrow> nat \<Rightarrow> (pyval \<times> nat \<times> pyval list) list
     \<Rightarrow> (pyval \<times> nat \<times> pyval list) list \<Rightarrow> pyval \<Rightarrow> py_error + DiffResult list" where
  "smart_key_records sheet_name options row_offset col_offset map_a map_b key =
     (case (pdict_get map_a key, pdict_get map_b key) of
        (None, None) \<Rightarrow> Inl TypeError
      | (None, Some rb) \<Rightarrow> Inr (smart_row_records sheet_name row_offset col_offset ADDED rb)
      | (Some ra, None) \<Rightarrow> Inr (smart_row_records sheet_name row_offset col_offset DELETED ra)
      | (Some ra, Some rb) \<Rightarrow>
          Inr (List.map_filter (\<lambda>col_idx.
                 smart_cell sheet_name (fst ra + row_offset) (col_idx + col_offset) options
                   (row_get (snd ra) col_idx) (row_get (snd rb) col_idx))
               [0..<max (length (snd ra)) (length (snd rb))]))"

text \<open>
  \<open>_compare_by_key\<close>. \<open>key_order\<close> is the order in which the set \<open>all_keys\<close> yields
  its keys; the loop runs over \<open>sorted(all_keys, key=str)\<close>, a stable sort.
\<close>

definition compare_by_key ::
  "string \<Rightarrow> pyval list list \<Rightarrow> pyval list list \<Rightarrow> SmartCompareOptions \<Rightarrow> nat \<Rightarrow> nat \<Rightarrow> pyval list
     \<Rightarrow> py_error + DiffResult list" where
  "compare_by_key sheet_name data_a data_b options row_offset col_offset key_order =
     (case build_key_map options data_a (use_header_row options) of
        Inl e \<Rightarrow> Inl e
      | Inr map_a \<Rightarrow>
          (case build_key_map options data_b (use_header_row options) of
             Inl e \<Rightarrow> Inl e
           | Inr map_b \<Rightarrow>
               (case collect (map (smart_key_records sheet_name options row_offset col_offset map_a map_b)
                                (sort_key py_str key_order)) of
                  Inl e \<Rightarrow> Inl e
                | Inr dss \<Rightarrow> Inr (concat dss))))"

subsection \<open>\_compare\_by\_header\<close>

text \<open>
  \<open>build_header_map\<close> of the service: the key is \<open>str(h)\<close>, lower-cased only when
  \<open>ignore_case\<close> is set and stripped only when \<open>ignore_whitespace\<close> is set.
\<close>

definition smart_header_key :: "SmartCompareOptions \<Rightarrow> pyval \<Rightarrow> string" where
  "smart_header_key options h =
     (let key = py_str h;
          key = (if smart_ignore_case options then py_lower key else key)
      in if smart_ignore_whitespace options then py_strip key else key)"

definition build_header_map :: "SmartCompareOptions \<Rightarrow> pyval list \<Rightarrow> (string \<times> nat) list" where
  "build_header_map options headers =
     foldl (\<lambda>d (idx, h).
              if h \<noteq> PNone \<and> \<not> py_eq h (PStr []) then dict_set d (smart_header_key options h) idx
              else d) [] (enumerate 0 headers)"

text \<open>\<open>data[row_idx][c] if row_idx < len(data) and c < len(data[row_idx]) else None\<close>.\<close>

definition data_get :: "pyval list list \<Rightarrow> nat \<Rightarrow> nat \<Rightarrow> pyval" where
  "data_get data row_idx c =
     (if row_idx < length data \<and> c < length (data ! row_idx) then data ! row_idx ! c else PNone)"

text \<open>
  \<open>_compare_by_header\<close>. A header row index beyond either data raises
  \<open>ValueError\<close>. \<open>header_order\<close> is the order in which the set \<open>common_headers\<close>
  yields the names.
\<close>

definition compare_by_header ::
  "string \<Rightarrow> pyval list list \<Rightarrow> pyval list list \<Rightarrow> SmartCompareOptions \<Rightarrow> nat \<Rightarrow> nat \<Rightarrow> string list
     \<Rightarrow> py_error + DiffResult list" where
  "compare_by_header sheet_name data_a data_b options row_offset col_offset header_order =
     (let header_row = header_row_index options
      in if header_row \<ge> length data_a \<or> header_row \<ge> length data_b then Inl ValueError
         else
           (let map_a = build_header_map options (data_a ! header_row);
                map_b = build_header_map options (data_b ! header_row);
                data_start = header_row + 1;
                max_rows = max (length data_a) (length data_b) - data_start
            in case collect (map (\<lambda>header.
                      case (map_of map_a header, map_of map_b header) of
                        (Some ca, Some cb) \<Rightarrow>
                          Inr (List.map_filter (\<lambda>row_offset_local.
                                (let row_idx = data_start + row_offset_local
                                 in smart_cell_skip_empty sheet_name (row_idx + row_offset)
                                      (ca + col_offset) options
                                      (data_get data_a row_idx ca) (data_get data_b row_idx cb)))
                               [0..<max_rows])
                      | _ \<Rightarrow> Inl KeyError) header_order) of
                 Inl e \<Rightarrow> Inl e
               | Inr dss \<Rightarrow> Inr (concat dss)))"

definition common_headers :: "SmartCompareOptions \<Rightarrow> pyval list \<Rightarrow> pyval list \<Rightarrow> string set" where
  "common_headers options headers_a headers_b =
     set (map fst (build_header_map options headers_a)) \<inter>
     set (map fst (build_header_map options headers_b))"

subsection \<open>\_compare\_by\_position and compare\_with\_range\<close>

definition compare_by_position ::
  "string \<Rightarrow> pyval list list \<Rightarrow> pyval list list \<Rightarrow> SmartCompareOptions \<Rightarrow> nat \<Rightarrow> nat \<Rightarrow> DiffResult list" where
  "compare_by_position sheet_name data_a data_b options row_offset col_offset =
     (let max_rows = max (length data_a) (length data_b);
          max_cols = max (if data_a \<noteq> [] then Max (set (map length data_a)) else 0)
                         (if data_b \<noteq> [] then Max (set (map length data_b)) else 0)
      in concat (map (\<lambda>row_idx.
           (let ra = (if row_idx < length data_a then data_a ! row_idx else []);
                rb = (if row_idx < length data_b then data_b ! row_idx else [])
            in List.map_filter (\<lambda>col_idx.
                 smart_cell_skip_empty sheet_name (row_idx + row_offset) (col_idx + col_offset) options
                   (row_get ra col_idx) (row_get rb col_idx))
               [0..<max_cols]))
         [0..<max_rows]))"

text \<open>
  \<open>compare_with_range\<close>. The two orders stand for the iteration orders of the sets of
  the key path and of the header path.
\<close>

definition compare_with_range ::
  "WorkbookData \<Rightarrow> WorkbookData \<Rightarrow> string \<Rightarrow> SmartCompareOptions \<Rightarrow> pyval list \<Rightarrow> string list
     \<Rightarrow> py_error + CompareResult" where
  "compare_with_range workbook_a workbook_b sheet_name options key_order header_order =
     (case (get_sheet workbook_a sheet_name, get_sheet workbook_b sheet_name) of
        (Some sheet_a, Some sheet_b) \<Rightarrow>
          (let row_offset_a = (case range_a options of None \<Rightarrow> 0 | Some rng \<Rightarrow> start_row rng);
               col_offset_a = (case range_a options of None \<Rightarrow> 0 | Some rng \<Rightarrow> start_col rng);
               data_a = extract_range_data sheet_a (range_a options);
               data_b = extract_range_data sheet_b (range_b options)
           in case (if use_key_column options then
                      compare_by_key sheet_name data_a data_b options row_offset_a col_offset_a key_order
                    else if use_header_row options then
                      compare_by_header sheet_name data_a data_b options row_offset_a col_offset_a
                        header_order
                    else Inr (compare_by_position sheet_name data_a data_b options
                                row_offset_a col_offset_a)) of
                Inl e \<Rightarrow> Inl e
              | Inr ds \<Rightarrow>
                  Inr \<lparr>file_a = file_name workbook_a, file_b = file_name workbook_b, diffs = ds,
                       summary = foldl add_diff empty_summary (map diff_type ds)\<rparr>)
      | _ \<Rightarrow> Inl ValueError)"

text \<open>The defaults of the dataclass \<open>SmartCompareOptions\<close>.\<close>

definition default_smart_options :: SmartCompareOptions where
  "default_smart_options =
     \<lparr>range_a = None, range_b = None, use_header_row = False, header_row_index = 0,
      use_key_column = False, key_column_index = 0, smart_ignore_case = False,
      smart_ignore_whitespace = False, smart_ignore_empty_rows = False\<rparr>"

text \<open>The defaults with \<open>ignore_whitespace\<close> switched on.\<close>

definition strip_options :: CompareOptions where
  "strip_options = default_options\<lparr>ignore_whitespace := True\<rparr>"

text \<open>The rectangle of the single cell A1.\<close>

definition cell00 :: SelRange where
  "cell00 = \<lparr>min_row = 0, min_col = 0, max_row = 0, max_col = 0\<rparr>"

text \<open>
  Two sheets keyed by their first two columns: A has the key \<open>x|1\<close> in rows 0 and 5,
  B has it in row 1. Row 5 of A also holds a cell without a value, an empty string and a
  string of one space.
\<close>

definition key_demo_a :: SheetData where
  "key_demo_a = sheet_of ''S''
     [[text_cell ''x'', text_cell ''1'', text_cell ''a'', empty_cell, empty_cell, empty_cell],
      [empty_cell, empty_cell, empty_cell, empty_cell, empty_cell, empty_cell],
      [empty_cell, empty_cell, empty_cell, empty_cell, empty_cell, empty_cell],
      [empty_cell, empty_cell, empty_cell, empty_cell, empty_cell, empty_cell],
      [empty_cell, empty_cell, empty_cell, empty_cell, empty_cell, empty_cell],
      [text_cell ''x'', text_cell ''1'', empty_cell, text_cell [], text_cell '' '', text_cell ''b'']]"

definition key_demo_b :: SheetData where
  "key_demo_b = sheet_of ''S''
     [[empty_cell, empty_cell, empty_cell, empty_cell, empty_cell, empty_cell],
      [text_cell ''x'', text_cell ''1'', text_cell ''c'', empty_cell, empty_cell, empty_cell]]"

definition key_demo_config :: KeyConfig where
  "key_demo_config =
     \<lparr>key_col1_a = Some 0, key_col2_a = Some 1, key_col1_b = Some 0, key_col2_b = Some 1\<rparr>"

text \<open>The defaults with \<open>ignore_case\<close> and \<open>ignore_whitespace\<close> switched on.\<close>

definition fold_options :: CompareOptions where
  "fold_options = default_options\<lparr>ignore_case := True, ignore_whitespace := True\<rparr>"

definition fold_smart_options :: SmartCompareOptions where
  "fold_smart_options =
     default_smart_options\<lparr>smart_ignore_case := True, smart_ignore_whitespace := True\<rparr>"

text \<open>A row is keyed by \<open>k\<close>: \<open>make_key\<close> returns \<open>k\<close> for its values.\<close>

definition keyed_as ::
  "int option \<Rightarrow> int option \<Rightarrow> CompareOptions \<Rightarrow> string \<Rightarrow> (nat \<times> pyval list) \<Rightarrow> bool" where
  "keyed_as col1 col2 options k entry = (make_key (snd entry) col1 col2 options = Inr (Some k))"

text \<open>A row of the service is stored under the key \<open>k\<close>.\<close>

definition smart_keyed_as :: "SmartCompareOptions \<Rightarrow> pyval \<Rightarrow> (nat \<times> pyval list) \<Rightarrow> bool" where
  "smart_keyed_as options k entry =
     (case key_cell (snd entry) (key_column_index options) of
        Inr (Some key) \<Rightarrow> key \<noteq> PNone \<and> \<not> py_eq key (PStr []) \<and> py_eq (smart_norm options key) k
      | _ \<Rightarrow> False)"

text \<open>The first key cell of a row holds a value whose text is not blank.\<close>

definition key1_present :: "int \<Rightarrow> (nat \<times> pyval list) \<Rightarrow> bool" where
  "key1_present c1 entry =
     (row_get (snd entry) (nat c1) \<noteq> PNone \<and> py_strip (py_str (row_get (snd entry) (nat c1))) \<noteq> [])"

text \<open>A workbook with one sheet of one row, \<open>x\<close> and \<open>y\<close>.\<close>

definition span_demo :: WorkbookData where
  "span_demo = workbook_of ''w.xlsx'' [sheet_of ''S'' [[text_cell ''x'', text_cell ''y'']]]"

text \<open>The rectangle A1:B1.\<close>

definition cells_a1_b1 :: SelRange where
  "cells_a1_b1 = \<lparr>min_row = 0, min_col = 0, max_row = 0, max_col = 1\<rparr>"

text \<open>The same sheet with \<open>z\<close> in place of \<open>y\<close>.\<close>

definition span_demo_b :: WorkbookData where
  "span_demo_b = workbook_of ''v.xlsx'' [sheet_of ''S'' [[text_cell ''x'', text_cell ''z'']]]"

text \<open>The rectangle B1:B1, and key columns B and the designator \<open>0\<close> (index \<open>-1\<close>).\<close>

definition cells_b1 :: SelRange where
  "cells_b1 = \<lparr>min_row = 0, min_col = 1, max_row = 0, max_col = 1\<rparr>"

definition keys_b_and_zero :: KeyConfig where
  "keys_b_and_zero = \<lparr>key_col1_a = Some 1, key_col2_a = Some (- 1),
                        key_col1_b = Some 1, key_col2_b = Some (- 1)\<rparr>"

text \<open>No key column configured.\<close>

definition no_keys :: KeyConfig where
  "no_keys = \<lparr>key_col1_a = None, key_col2_a = None, key_col1_b = None, key_col2_b = None\<rparr>"

text \<open>The regions A1:A1 and A1:B1 of the service.\<close>

definition region_a1 :: CellRange where
  "region_a1 = \<lparr>start_row = 0, start_col = 0, end_row = 0, end_col = 0\<rparr>"

definition region_a1_b1 :: CellRange where
  "region_a1_b1 = \<lparr>start_row = 0, start_col = 0, end_row = 0, end_col = 1\<rparr>"

text \<open>
  Two sheets keyed by their first column, with the keys \<open>b\<close> (row 0) and \<open>a\<close>
  (row 1), that differ in the second column of both rows.
\<close>

definition order_demo_a :: SheetData where
  "order_demo_a = sheet_of ''S''
     [[text_cell ''b'', text_cell ''1''], [text_cell ''a'', text_cell ''2'']]"

definition order_demo_b :: SheetData where
  "order_demo_b = sheet_of ''S''
     [[text_cell ''b'', text_cell ''9''], [text_cell ''a'', text_cell ''8'']]"

text \<open>The first column as the only key column, on both sides.\<close>

definition first_col_key :: KeyConfig where
  "first_col_key = \<lparr>key_col1_a = Some 0, key_col2_a = None, key_col1_b = Some 0, key_col2_b = None\<rparr>"

text \<open>The rectangle A1:B2.\<close>

definition cells_a1_b2 :: SelRange where
  "cells_a1_b2 = \<lparr>min_row = 0, min_col = 0, max_row = 1, max_col = 1\<rparr>"


section \<open>Verified properties\<close>






lemma get_sheet_name: "get_sheet wb n = Some s \<Longrightarrow> name s = n"
  unfolding get_sheet_def by (induction "sheets wb") (auto simp: find_Some_iff)

lemma get_sheet_None_iff:
  "sheet_names wb = map name (sheets wb) \<Longrightarrow> get_sheet wb n = None \<longleftrightarrow> n \<notin> set (sheet_names wb)"
  unfolding get_sheet_def by (auto simp: find_None_iff)

lemma set_map_filter: "set (List.map_filter f xs) = {y. \<exists>x\<in>set xs. f x = Some y}"
  by (induction xs) (auto simp: List.map_filter_simps split: option.splits)

lemma mark_rows_elem:
  assumes "d \<in> set (mark_rows sn sh lo hi t is_new)"
  shows "\<exists>cell. get_cell sh (int (row d)) (int (col d)) = Some cell \<and> \<not> is_empty cell \<and>
           d = mk_diff sn (row d) (col d) t (if is_new then PNone else val cell)
                 (if is_new then val cell else PNone)"
proof -
  from assms obtain r c where
    "(case get_cell sh (int r) (int c) of
          None \<Rightarrow> None
        | Some cell \<Rightarrow>
            if \<not> is_empty cell then
              Some (mk_diff sn r c t
                      (if is_new then PNone else val cell) (if is_new then val cell else PNone))
            else None) = Some d"
    unfolding mark_rows_def by (auto simp: set_map_filter)
  then show ?thesis
    by (cases "get_cell sh (int r) (int c)") (auto simp: mk_diff_def split: if_splits)
qed

lemma map_filter_pos:
  "map (\<lambda>d. (row d, col d)) (List.map_filter (\<lambda>c. case g c of None \<Rightarrow> None | Some cell \<Rightarrow> if p cell then Some (mk_diff sn r c t (a cell) (b cell)) else None) cs)
   = map (\<lambda>c. (r, c)) (filter (\<lambda>c. \<exists>cell. g c = Some cell \<and> p cell) cs)"
  by (induction cs) (auto simp: List.map_filter_simps mk_diff_def split: option.splits)

lemma mark_rows_pos:
  "map (\<lambda>d. (row d, col d)) (mark_rows sn sh lo hi t is_new) =
     concat (map (\<lambda>r. map (\<lambda>c. (r, c)) (filter (\<lambda>c. marked sh r c) [0..<col_count sh])) [lo..<hi])"
proof -
  have "\<And>r. map (\<lambda>d. (row d, col d)) (List.map_filter (\<lambda>c.
        case get_cell sh (int r) (int c) of
          None \<Rightarrow> None
        | Some cell \<Rightarrow>
            if \<not> is_empty cell then
              Some (mk_diff sn r c t
                      (if is_new then PNone else val cell) (if is_new then val cell else PNone))
            else None)
        [0..<col_count sh]) = map (\<lambda>c. (r, c)) (filter (\<lambda>c. marked sh r c) [0..<col_count sh])"
    unfolding marked_def
    by (rule map_filter_pos [where p = "\<lambda>cell. \<not> is_empty cell" and g = "\<lambda>c. get_cell sh (int r) (int c)" for r])
  then show ?thesis
    unfolding mark_rows_def by (simp add: map_concat comp_def)
qed

lemma distinct_grid:
  "distinct rs \<Longrightarrow> distinct cs \<Longrightarrow>
   distinct (concat (map (\<lambda>r. map (\<lambda>c. (r, c)) (filter (P r) cs)) rs))"
  by (induction rs) (auto simp: distinct_map inj_on_def)

lemma mark_rows_distinct: "distinct (map (\<lambda>d. (row d, col d)) (mark_rows sn sh lo hi t is_new))"
  unfolding mark_rows_pos by (rule distinct_grid) simp_all

lemma mark_rows_pos_set:
  "(r, c) \<in> set (map (\<lambda>d. (row d, col d)) (mark_rows sn sh lo hi t is_new)) \<longleftrightarrow>
     lo \<le> r \<and> r < hi \<and> c < col_count sh \<and> marked sh r c"
proof -
  have "set (concat (map (\<lambda>r. map (\<lambda>c. (r, c)) (filter (\<lambda>c. marked sh r c) [0..<col_count sh])) [lo..<hi]))
        = {(r, c). lo \<le> r \<and> r < hi \<and> c < col_count sh \<and> marked sh r c}"
    by (simp only: set_concat set_map set_filter set_upt) auto
  then show ?thesis unfolding mark_rows_pos by simp
qed

lemma compare_loop_Inr:
  "compare_loop fl wa wb mode options order st = Inr st' \<Longrightarrow>
     (\<forall>n\<in>set order. compare_sheet fl wa wb mode options n = Inr (sheet_diffs fl wa wb mode options n)) \<and>
     fst st' = fst st @ concat (map (sheet_diffs fl wa wb mode options) order) \<and>
     snd st' = foldl add_diff (snd st)
                 (map diff_type (concat (map (sheet_diffs fl wa wb mode options) order)))"
proof (induction order arbitrary: st)
  case Nil
  then show ?case by simp
next
  case (Cons n ns)
  then obtain ds where ds: "compare_sheet fl wa wb mode options n = Inr ds"
    by (cases "compare_sheet fl wa wb mode options n") auto
  with Cons.prems have
    "compare_loop fl wa wb mode options ns
       (fst st @ ds, foldl add_diff (snd st) (map diff_type ds)) = Inr st'"
    by simp
  moreover have "sheet_diffs fl wa wb mode options n = ds"
    using ds by (simp add: sheet_diffs_def)
  ultimately show ?case
    using Cons.IH [of "(fst st @ ds, foldl add_diff (snd st) (map diff_type ds))"] ds
    by simp
qed

lemma compare_loop_total:
  "\<forall>n\<in>set order. \<exists>ds. compare_sheet fl wa wb mode options n = Inr ds \<Longrightarrow>
   \<exists>st'. compare_loop fl wa wb mode options order st = Inr st'"
proof (induction order arbitrary: st)
  case Nil
  then show ?case by simp
next
  case (Cons n ns)
  then obtain ds where ds: "compare_sheet fl wa wb mode options n = Inr ds" by auto
  from Cons.IH [of "(fst st @ ds, foldl add_diff (snd st) (map diff_type ds))"] Cons.prems ds
  show ?case by simp
qed

lemma compare_sheet_total:
  assumes "mode \<noteq> NUMERIC" "get_sheet wa n \<noteq> None \<or> get_sheet wb n \<noteq> None"
  shows "\<exists>ds. compare_sheet fl wa wb mode options n = Inr ds"
  using assms unfolding compare_sheet_def
  by (cases "get_sheet wa n"; cases "get_sheet wb n") auto

lemma mark_all_cells_props:
  "distinct (map pos (mark_all_cells sb t is_new)) \<and>
   (\<forall>r c. (r, c) \<in> set (map pos (mark_all_cells sb t is_new)) \<longleftrightarrow>
      r < row_count sb \<and> c < col_count sb \<and> marked sb r c) \<and>
   (\<forall>d\<in>set (mark_all_cells sb t is_new).
      diff_type d = t \<and> sheet d = name sb \<and>
      old_value d = (if is_new then PNone else cell_val (get_cell sb (int (row d)) (int (col d)))) \<and>
      new_value d = (if is_new then cell_val (get_cell sb (int (row d)) (int (col d))) else PNone) \<and>
      row_b d = None \<and> col_b d = None)"
proof -
  have pos_eq: "pos = (\<lambda>d. (row d, col d))" by (simp add: pos_def fun_eq_iff)
  have a: "distinct (map pos (mark_all_cells sb t is_new))"
    unfolding mark_all_cells_def pos_eq by (rule mark_rows_distinct)
  have b: "\<forall>r c. (r, c) \<in> set (map pos (mark_all_cells sb t is_new)) \<longleftrightarrow>
      r < row_count sb \<and> c < col_count sb \<and> marked sb r c"
    unfolding mark_all_cells_def pos_eq using mark_rows_pos_set [of _ _ "name sb" sb 0 "row_count sb" t is_new]
    by simp
  have c: "\<forall>d\<in>set (mark_all_cells sb t is_new).
      diff_type d = t \<and> sheet d = name sb \<and>
      old_value d = (if is_new then PNone else cell_val (get_cell sb (int (row d)) (int (col d)))) \<and>
      new_value d = (if is_new then cell_val (get_cell sb (int (row d)) (int (col d))) else PNone) \<and>
      row_b d = None \<and> col_b d = None"
  proof
    fix d assume "d \<in> set (mark_all_cells sb t is_new)"
    then obtain cell where c: "get_cell sb (int (row d)) (int (col d)) = Some cell"
      and d: "d = mk_diff (name sb) (row d) (col d) t (if is_new then PNone else val cell)
                 (if is_new then val cell else PNone)"
      unfolding mark_all_cells_def using mark_rows_elem by blast
    have "diff_type d = t \<and> sheet d = name sb \<and> row_b d = None \<and> col_b d = None \<and>
          old_value d = (if is_new then PNone else val cell) \<and>
          new_value d = (if is_new then val cell else PNone)"
      by (subst (1 2 3 4 5 6) d) (simp add: mk_diff_def)
    with c show "diff_type d = t \<and> sheet d = name sb \<and>
      old_value d = (if is_new then PNone else cell_val (get_cell sb (int (row d)) (int (col d)))) \<and>
      new_value d = (if is_new then cell_val (get_cell sb (int (row d)) (int (col d))) else PNone) \<and>
      row_b d = None \<and> col_b d = None"
      by (simp add: cell_val_def)
  qed
  from a b c show ?thesis by blast
qed

lemma sheets_to_compare_eq:
  "sheets_to_compare wa wb selected =
     (case selected of
        None \<Rightarrow> set (sheet_names wa) \<union> set (sheet_names wb)
      | Some sel \<Rightarrow> if sel = [] then set (sheet_names wa) \<union> set (sheet_names wb)
                    else set sel \<inter> (set (sheet_names wa) \<union> set (sheet_names wb)))"
  by (simp add: sheets_to_compare_def split: option.splits)

lemma sheets_to_compare_sub:
  "sheets_to_compare wa wb selected \<subseteq> set (sheet_names wa) \<union> set (sheet_names wb)"
  unfolding sheets_to_compare_eq by (auto split: option.splits if_splits)

lemma sheet_only_in_b:
  assumes "get_sheet wa n = None" "get_sheet wb n = Some sb"
  shows "sheet_diffs fl wa wb mode ops n = mark_all_cells sb ADDED True"
  using assms by (simp add: sheet_diffs_def compare_sheet_def)

lemma sheet_only_in_a:
  assumes "get_sheet wb n = None" "get_sheet wa n = Some sa"
  shows "sheet_diffs fl wa wb mode ops n = mark_all_cells sa DELETED False"
  using assms by (simp add: sheet_diffs_def compare_sheet_def)

text \<open>
  Claim C10. \<open>CompareService.compare\<close> visits the union of the two workbooks' sheet
  names, or, when a non-empty list of selected sheets is given, the selected names that
  are in that union (a selected name in neither workbook is not visited and raises
  nothing). The order of the visit is the set's iteration order, here any list
  \<open>order\<close> that enumerates the set once. In every mode but the numeric one the call
  returns. When it returns, the differences are the per-sheet differences in that
  order, and the summary is the fold of \<open>add_diff\<close> over the kinds of the returned
  differences. A sheet only in workbook B gives exactly one record per stored non-empty
  cell within its row and column counts, each Added with no old value and the cell's
  value as new value; a sheet only in workbook A gives the same with Deleted, the
  cell's value as old value and no new value.
\<close>

theorem compare_sheets_and_summary:
  assumes wf: "sheet_names wa = map name (sheets wa)" "sheet_names wb = map name (sheets wb)"
    and order: "distinct order" "set order = sheets_to_compare wa wb selected"
    and ops: "ops = (case options of None \<Rightarrow> default_options | Some x \<Rightarrow> x)"
  shows
    "sheets_to_compare wa wb selected =
       (case selected of
          None \<Rightarrow> set (sheet_names wa) \<union> set (sheet_names wb)
        | Some sel \<Rightarrow> if sel = [] then set (sheet_names wa) \<union> set (sheet_names wb)
                      else set sel \<inter> (set (sheet_names wa) \<union> set (sheet_names wb))) \<and>
     (mode \<noteq> NUMERIC \<longrightarrow> (\<exists>res. compare fl wa wb mode options order = Inr res)) \<and>
     (\<forall>res. compare fl wa wb mode options order = Inr res \<longrightarrow>
        diffs res = concat (map (sheet_diffs fl wa wb mode ops) order) \<and>
        summary res = foldl add_diff empty_summary (map diff_type (diffs res))) \<and>
     (\<forall>n\<in>set order. n \<notin> set (sheet_names wa) \<longrightarrow>
        (\<exists>sb. get_sheet wb n = Some sb \<and> name sb = n \<and>
           distinct (map pos (sheet_diffs fl wa wb mode ops n)) \<and>
           (\<forall>r c. (r, c) \<in> set (map pos (sheet_diffs fl wa wb mode ops n)) \<longleftrightarrow>
              r < row_count sb \<and> c < col_count sb \<and> marked sb r c) \<and>
           (\<forall>d\<in>set (sheet_diffs fl wa wb mode ops n).
              diff_type d = ADDED \<and> sheet d = n \<and> old_value d = PNone \<and>
              new_value d = cell_val (get_cell sb (int (row d)) (int (col d)))))) \<and>
     (\<forall>n\<in>set order. n \<notin> set (sheet_names wb) \<longrightarrow>
        (\<exists>sa. get_sheet wa n = Some sa \<and> name sa = n \<and>
           distinct (map pos (sheet_diffs fl wa wb mode ops n)) \<and>
           (\<forall>r c. (r, c) \<in> set (map pos (sheet_diffs fl wa wb mode ops n)) \<longleftrightarrow>
              r < row_count sa \<and> c < col_count sa \<and> marked sa r c) \<and>
           (\<forall>d\<in>set (sheet_diffs fl wa wb mode ops n).
              diff_type d = DELETED \<and> sheet d = n \<and> new_value d = PNone \<and>
              old_value d = cell_val (get_cell sa (int (row d)) (int (col d))))))"
proof -
  have sub: "set order \<subseteq> set (sheet_names wa) \<union> set (sheet_names wb)"
    using order(2) sheets_to_compare_sub by simp
  have p1: "sheets_to_compare wa wb selected =
       (case selected of
          None \<Rightarrow> set (sheet_names wa) \<union> set (sheet_names wb)
        | Some sel \<Rightarrow> if sel = [] then set (sheet_names wa) \<union> set (sheet_names wb)
                      else set sel \<inter> (set (sheet_names wa) \<union> set (sheet_names wb)))"
    by (rule sheets_to_compare_eq)
  have p2: "mode \<noteq> NUMERIC \<longrightarrow> (\<exists>res. compare fl wa wb mode options order = Inr res)"
  proof
    assume m: "mode \<noteq> NUMERIC"
    have "\<forall>n\<in>set order. \<exists>ds. compare_sheet fl wa wb mode ops n = Inr ds"
    proof
      fix n assume "n \<in> set order"
      with sub have "n \<in> set (sheet_names wa) \<or> n \<in> set (sheet_names wb)" by auto
      then have "get_sheet wa n \<noteq> None \<or> get_sheet wb n \<noteq> None"
        using get_sheet_None_iff [OF wf(1)] get_sheet_None_iff [OF wf(2)] by auto
      with m show "\<exists>ds. compare_sheet fl wa wb mode ops n = Inr ds"
        by (rule compare_sheet_total)
    qed
    from compare_loop_total [OF this, of "([], empty_summary)"]
    obtain st' where "compare_loop fl wa wb mode ops order ([], empty_summary) = Inr st'" by blast
    then show "\<exists>res. compare fl wa wb mode options order = Inr res"
      by (simp add: compare_def ops)
  qed
  have p3: "\<forall>res. compare fl wa wb mode options order = Inr res \<longrightarrow>
        diffs res = concat (map (sheet_diffs fl wa wb mode ops) order) \<and>
        summary res = foldl add_diff empty_summary (map diff_type (diffs res))"
  proof (intro allI impI)
    fix res assume r: "compare fl wa wb mode options order = Inr res"
    then obtain st' where st: "compare_loop fl wa wb mode ops order ([], empty_summary) = Inr st'"
      and res: "res = \<lparr>file_a = file_name wa, file_b = file_name wb, diffs = fst st', summary = snd st'\<rparr>"
      by (auto simp add: compare_def ops Let_def split: sum.splits)
    from compare_loop_Inr [OF st] res
    show "diffs res = concat (map (sheet_diffs fl wa wb mode ops) order) \<and>
        summary res = foldl add_diff empty_summary (map diff_type (diffs res))"
      by simp
  qed
  have p4: "\<forall>n\<in>set order. n \<notin> set (sheet_names wa) \<longrightarrow>
        (\<exists>sb. get_sheet wb n = Some sb \<and> name sb = n \<and>
           distinct (map pos (sheet_diffs fl wa wb mode ops n)) \<and>
           (\<forall>r c. (r, c) \<in> set (map pos (sheet_diffs fl wa wb mode ops n)) \<longleftrightarrow>
              r < row_count sb \<and> c < col_count sb \<and> marked sb r c) \<and>
           (\<forall>d\<in>set (sheet_diffs fl wa wb mode ops n).
              diff_type d = ADDED \<and> sheet d = n \<and> old_value d = PNone \<and>
              new_value d = cell_val (get_cell sb (int (row d)) (int (col d)))))"
  proof (intro ballI impI)
    fix n assume n: "n \<in> set order" "n \<notin> set (sheet_names wa)"
    then have na: "get_sheet wa n = None" using get_sheet_None_iff [OF wf(1)] by simp
    from n sub have "n \<in> set (sheet_names wb)" by auto
    then obtain sb where sb: "get_sheet wb n = Some sb"
      using get_sheet_None_iff [OF wf(2), of n] by auto
    have nm: "name sb = n" using sb by (rule get_sheet_name)
    have eq: "sheet_diffs fl wa wb mode ops n = mark_all_cells sb ADDED True"
      using na sb by (rule sheet_only_in_b)
    show "\<exists>sb. get_sheet wb n = Some sb \<and> name sb = n \<and>
           distinct (map pos (sheet_diffs fl wa wb mode ops n)) \<and>
           (\<forall>r c. (r, c) \<in> set (map pos (sheet_diffs fl wa wb mode ops n)) \<longleftrightarrow>
              r < row_count sb \<and> c < col_count sb \<and> marked sb r c) \<and>
           (\<forall>d\<in>set (sheet_diffs fl wa wb mode ops n).
              diff_type d = ADDED \<and> sheet d = n \<and> old_value d = PNone \<and>
              new_value d = cell_val (get_cell sb (int (row d)) (int (col d))))"
      using sb nm mark_all_cells_props [of sb ADDED True] unfolding eq
      by (intro exI [of _ sb]) simp
  qed
  have p5: "\<forall>n\<in>set order. n \<notin> set (sheet_names wb) \<longrightarrow>
        (\<exists>sa. get_sheet wa n = Some sa \<and> name sa = n \<and>
           distinct (map pos (sheet_diffs fl wa wb mode ops n)) \<and>
           (\<forall>r c. (r, c) \<in> set (map pos (sheet_diffs fl wa wb mode ops n)) \<longleftrightarrow>
              r < row_count sa \<and> c < col_count sa \<and> marked sa r c) \<and>
           (\<forall>d\<in>set (sheet_diffs fl wa wb mode ops n).
              diff_type d = DELETED \<and> sheet d = n \<and> new_value d = PNone \<and>
              old_value d = cell_val (get_cell sa (int (row d)) (int (col d)))))"
  proof (intro ballI impI)
    fix n assume n: "n \<in> set order" "n \<notin> set (sheet_names wb)"
    then have nb: "get_sheet wb n = None" using get_sheet_None_iff [OF wf(2)] by simp
    from n sub have "n \<in> set (sheet_names wa)" by auto
    then obtain sa where sa: "get_sheet wa n = Some sa"
      using get_sheet_None_iff [OF wf(1), of n] by auto
    have nm: "name sa = n" using sa by (rule get_sheet_name)
    have eq: "sheet_diffs fl wa wb mode ops n = mark_all_cells sa DELETED False"
      using nb sa by (rule sheet_only_in_a)
    show "\<exists>sa. get_sheet wa n = Some sa \<and> name sa = n \<and>
           distinct (map pos (sheet_diffs fl wa wb mode ops n)) \<and>
           (\<forall>r c. (r, c) \<in> set (map pos (sheet_diffs fl wa wb mode ops n)) \<longleftrightarrow>
              r < row_count sa \<and> c < col_count sa \<and> marked sa r c) \<and>
           (\<forall>d\<in>set (sheet_diffs fl wa wb mode ops n).
              diff_type d = DELETED \<and> sheet d = n \<and> new_value d = PNone \<and>
              old_value d = cell_val (get_cell sa (int (row d)) (int (col d))))"
      using sa nm mark_all_cells_props [of sa DELETED False] unfolding eq
      by (intro exI [of _ sa]) simp
  qed
  from p1 p2 p3 p4 p5 show ?thesis by blast
qed

lemma demo_value:
  "compare float_table wa_demo wb_demo EXACT None [''S1'', ''S2''] =
     Inr \<lparr>file_a = ''a.xlsx'', file_b = ''b.xlsx'',
          diffs = [mk_diff ''S1'' 0 0 MODIFIED (PStr ''x'') (PStr ''y''),
                   mk_diff ''S2'' 0 0 ADDED PNone (PStr ''z'')],
          summary = \<lparr>total = 2, modified = 1, added = 1, deleted = 0, format_changed = 0\<rparr>\<rparr>"
  by code_simp

theorem compare_sheets_and_summary_witness:
  "distinct [''S1'', ''S2''] \<and>
   set [''S1'', ''S2''] = sheets_to_compare wa_demo wb_demo None \<and>
   (\<exists>res. compare float_table wa_demo wb_demo EXACT None [''S1'', ''S2''] = Inr res \<and>
      diffs res = concat (map (sheet_diffs float_table wa_demo wb_demo EXACT default_options)
                     [''S1'', ''S2'']) \<and>
      summary res = foldl add_diff empty_summary (map diff_type (diffs res)) \<and>
      summary res = \<lparr>total = 2, modified = 1, added = 1, deleted = 0, format_changed = 0\<rparr>) \<and>
   (\<exists>sb. get_sheet wb_demo ''S2'' = Some sb \<and>
      distinct (map pos (sheet_diffs float_table wa_demo wb_demo EXACT default_options ''S2'')) \<and>
      (\<forall>d\<in>set (sheet_diffs float_table wa_demo wb_demo EXACT default_options ''S2'').
         diff_type d = ADDED \<and> old_value d = PNone))"
proof -
  have wfa: "sheet_names wa_demo = map name (sheets wa_demo)"
    by (simp add: wa_demo_def workbook_of_def)
  have wfb: "sheet_names wb_demo = map name (sheets wb_demo)"
    by (simp add: wb_demo_def workbook_of_def)
  have d: "distinct [''S1'', ''S2'']" by simp
  have st: "set [''S1'', ''S2''] = sheets_to_compare wa_demo wb_demo None"
    by (auto simp add: sheets_to_compare_def wa_demo_def wb_demo_def workbook_of_def sheet_of_def)
  have ops: "default_options = (case None of None \<Rightarrow> default_options | Some x \<Rightarrow> x)" by simp
  note T = compare_sheets_and_summary [OF wfa wfb d st ops, of EXACT float_table]
  note T2 = T [THEN conjunct2, THEN conjunct1]
  note T3 = T [THEN conjunct2, THEN conjunct2, THEN conjunct1]
  note T4 = T [THEN conjunct2, THEN conjunct2, THEN conjunct2, THEN conjunct1]
  from T2 obtain res where res: "compare float_table wa_demo wb_demo EXACT None [''S1'', ''S2''] = Inr res"
    by auto
  from T3 [rule_format, OF res] have r1: "diffs res = concat (map (sheet_diffs float_table wa_demo wb_demo EXACT default_options)
                     [''S1'', ''S2''])"
    and r2: "summary res = foldl add_diff empty_summary (map diff_type (diffs res))"
    by simp_all
  have r3: "summary res = \<lparr>total = 2, modified = 1, added = 1, deleted = 0, format_changed = 0\<rparr>"
    using res unfolding demo_value by auto
  have nin: "''S2'' \<notin> set (sheet_names wa_demo)"
    by (simp add: wa_demo_def workbook_of_def sheet_of_def)
  have mem: "''S2'' \<in> set [''S1'', ''S2'']" by simp
  from T4 [THEN bspec, OF mem, THEN mp, OF nin] obtain sb where sb: "get_sheet wb_demo ''S2'' = Some sb"
      "distinct (map pos (sheet_diffs float_table wa_demo wb_demo EXACT default_options ''S2''))"
      "\<forall>d\<in>set (sheet_diffs float_table wa_demo wb_demo EXACT default_options ''S2'').
         diff_type d = ADDED \<and> sheet d = ''S2'' \<and> old_value d = PNone \<and>
              new_value d = cell_val (get_cell sb (int (row d)) (int (col d)))"
    by (elim exE conjE)
  from sb(3) have sb3: "\<forall>d\<in>set (sheet_diffs float_table wa_demo wb_demo EXACT default_options ''S2'').
         diff_type d = ADDED \<and> old_value d = PNone" by simp
  have e1: "\<exists>res. compare float_table wa_demo wb_demo EXACT None [''S1'', ''S2''] = Inr res \<and>
      diffs res = concat (map (sheet_diffs float_table wa_demo wb_demo EXACT default_options)
                     [''S1'', ''S2'']) \<and>
      summary res = foldl add_diff empty_summary (map diff_type (diffs res)) \<and>
      summary res = \<lparr>total = 2, modified = 1, added = 1, deleted = 0, format_changed = 0\<rparr>"
    using res r1 r2 r3 by (intro exI [of _ res] conjI)
  have e2: "\<exists>sb. get_sheet wb_demo ''S2'' = Some sb \<and>
      distinct (map pos (sheet_diffs float_table wa_demo wb_demo EXACT default_options ''S2'')) \<and>
      (\<forall>d\<in>set (sheet_diffs float_table wa_demo wb_demo EXACT default_options ''S2'').
         diff_type d = ADDED \<and> old_value d = PNone)"
    using sb(1,2) sb3 by (intro exI [of _ sb] conjI)
  from d st e1 e2 show ?thesis by (intro conjI)
qed

lemma py_eq_empty_str [simp]: "py_eq v (PStr []) \<longleftrightarrow> v = PStr []"
  by (cases v) (auto simp: py_eq_def)

lemma py_eq_refl [simp]: "py_eq v v"
  by (cases v) (auto simp: py_eq_def)

lemma py_eq_None [simp]: "py_eq PNone v \<longleftrightarrow> v = PNone" "py_eq v PNone \<longleftrightarrow> v = PNone"
  by (cases v; auto simp: py_eq_def)+

lemma is_empty_value_iff: "is_empty_value v \<longleftrightarrow> v = PNone \<or> v = PStr []"
  by (simp add: is_empty_value_def)

lemma compare_cells_rule:
  assumes "normalized_values options cell_a cell_b = (va, vb)"
  shows "(is_empty_value va \<and> is_empty_value vb \<longrightarrow> compare_cells s r c cell_a cell_b options = None) \<and>
     (\<not> (is_empty_value va \<and> is_empty_value vb) \<and> \<not> py_eq va vb \<longrightarrow>
        (\<exists>d. compare_cells s r c cell_a cell_b options = Some d \<and>
             old_value d = cell_val cell_a \<and> new_value d = cell_val cell_b \<and>
             (diff_type d = ADDED \<longleftrightarrow> is_empty_value va \<and> \<not> is_empty_value vb) \<and>
             (diff_type d = DELETED \<longleftrightarrow> \<not> is_empty_value va \<and> is_empty_value vb) \<and>
             (diff_type d = MODIFIED \<longleftrightarrow> \<not> is_empty_value va \<and> \<not> is_empty_value vb)))"
  using assms unfolding compare_cells_def is_empty_value_def
  by (auto simp add: mk_diff_def Let_def)

lemma smart_rule:
  "(smart_cell s r c sopts xa xb = None \<longleftrightarrow> py_eq (smart_norm sopts xa) (smart_norm sopts xb)) \<and>
   (smart_cell_skip_empty s r c sopts xa xb = None \<longleftrightarrow>
      py_eq (smart_norm sopts xa) (smart_norm sopts xb) \<or>
      (smart_ignore_empty_rows sopts \<and> is_empty_value xa \<and> is_empty_value xb)) \<and>
   (\<forall>d. smart_cell s r c sopts xa xb = Some d \<or> smart_cell_skip_empty s r c sopts xa xb = Some d \<longrightarrow>
      diff_type d = smart_diff_type xa xb \<and> old_value d = xa \<and> new_value d = xb) \<and>
   (\<not> (is_empty_value xa \<and> is_empty_value xb) \<longrightarrow>
      (smart_diff_type xa xb = ADDED \<longleftrightarrow> is_empty_value xa \<and> \<not> is_empty_value xb) \<and>
      (smart_diff_type xa xb = DELETED \<longleftrightarrow> \<not> is_empty_value xa \<and> is_empty_value xb) \<and>
      (smart_diff_type xa xb = MODIFIED \<longleftrightarrow> \<not> is_empty_value xa \<and> \<not> is_empty_value xb))"
  unfolding smart_cell_def smart_cell_skip_empty_def smart_diff_type_def is_empty_value_def
  by (auto simp add: mk_diff_def Let_def)

lemma handler_rule:
  "(values_differ xa xb options \<longleftrightarrow>
      \<not> py_eq (cmp_value options xa) (cmp_value options xb) \<and>
      \<not> (ignore_empty_rows options \<and> is_empty_value (cmp_value options xa) \<and>
           is_empty_value (cmp_value options xb))) \<and>
   (\<not> (is_empty_value xa \<and> is_empty_value xb) \<and>
    (is_empty_value xa \<or> py_truthy xa) \<and> (is_empty_value xb \<or> py_truthy xb) \<longrightarrow>
      (get_diff_type xa xb = ADDED \<longleftrightarrow> is_empty_value xa \<and> \<not> is_empty_value xb) \<and>
      (get_diff_type xa xb = DELETED \<longleftrightarrow> \<not> is_empty_value xa \<and> is_empty_value xb) \<and>
      (get_diff_type xa xb = MODIFIED \<longleftrightarrow> \<not> is_empty_value xa \<and> \<not> is_empty_value xb))"
  unfolding values_differ_def get_diff_type_def is_empty_value_def
  by (auto simp add: Let_def)

text \<open>
  Claim C1 as stated fails in the handlers: with \<open>ignore_empty_rows\<close> off, the
  position comparison of a selection reports the pair \<open>None\<close> and \<open>""\<close>, both
  empty, as a Modified record.
\<close>

theorem empty_pair_reported_by_handler:
  "is_empty_value PNone \<and> is_empty_value (PStr []) \<and>
   compare_by_position_sel ''S'' (sheet_of ''S'' [[empty_cell]]) (sheet_of ''S'' [[text_cell []]])
      cell00 cell00 default_options
     = [mk_diff_b ''S'' 0 0 MODIFIED PNone (PStr []) 0 0]"
  by code_simp

text \<open>
  Claim C1, as the code has it.
  \<^item> In \<open>_compare_cells\<close> (the exact, formula and structure comparisons), on the
    normalized values: a pair of empty values gives no record; an unequal pair that is
    not empty on both sides gives one record, which carries the stored values and is
    Added exactly when the A side is empty and the B side is not, Deleted exactly when
    the A side is not empty and the B side is, and Modified exactly when neither side is
    empty.
  \<^item> In the smart comparison service a record is produced exactly when the normalized
    values are unequal; its header and position paths also pass over a pair whose stored
    values are both empty when \<open>ignore_empty_rows\<close> is set. The kind of a record is
    read on the stored values: for a pair that is not empty on both sides it follows
    the same three-way rule.
  \<^item> In the handlers of the main window a record is produced exactly when the
    normalized values are unequal and not, with \<open>ignore_empty_rows\<close> set, both
    empty. For a pair of stored values that is not empty on both sides, and in which
    each value is empty or true (so neither is the number zero or \<open>False\<close>), the
    kind follows the same three-way rule on the stored values.
\<close>

theorem cell_rule_by_path:
  "(normalized_values options cell_a cell_b = (va, vb) \<longrightarrow>
     (is_empty_value va \<and> is_empty_value vb \<longrightarrow> compare_cells s r c cell_a cell_b options = None) \<and>
     (\<not> (is_empty_value va \<and> is_empty_value vb) \<and> \<not> py_eq va vb \<longrightarrow>
        (\<exists>d. compare_cells s r c cell_a cell_b options = Some d \<and>
             old_value d = cell_val cell_a \<and> new_value d = cell_val cell_b \<and>
             (diff_type d = ADDED \<longleftrightarrow> is_empty_value va \<and> \<not> is_empty_value vb) \<and>
             (diff_type d = DELETED \<longleftrightarrow> \<not> is_empty_value va \<and> is_empty_value vb) \<and>
             (diff_type d = MODIFIED \<longleftrightarrow> \<not> is_empty_value va \<and> \<not> is_empty_value vb)))) \<and>
   ((smart_cell s r c sopts xa xb = None \<longleftrightarrow> py_eq (smart_norm sopts xa) (smart_norm sopts xb)) \<and>
    (smart_cell_skip_empty s r c sopts xa xb = None \<longleftrightarrow>
       py_eq (smart_norm sopts xa) (smart_norm sopts xb) \<or>
       (smart_ignore_empty_rows sopts \<and> is_empty_value xa \<and> is_empty_value xb)) \<and>
    (\<forall>d. smart_cell s r c sopts xa xb = Some d \<or> smart_cell_skip_empty s r c sopts xa xb = Some d \<longrightarrow>
       diff_type d = smart_diff_type xa xb \<and> old_value d = xa \<and> new_value d = xb) \<and>
    (\<not> (is_empty_value xa \<and> is_empty_value xb) \<longrightarrow>
       (smart_diff_type xa xb = ADDED \<longleftrightarrow> is_empty_value xa \<and> \<not> is_empty_value xb) \<and>
       (smart_diff_type xa xb = DELETED \<longleftrightarrow> \<not> is_empty_value xa \<and> is_empty_value xb) \<and>
       (smart_diff_type xa xb = MODIFIED \<longleftrightarrow> \<not> is_empty_value xa \<and> \<not> is_empty_value xb))) \<and>
   ((values_differ xa xb options \<longleftrightarrow>
       \<not> py_eq (cmp_value options xa) (cmp_value options xb) \<and>
       \<not> (ignore_empty_rows options \<and> is_empty_value (cmp_value options xa) \<and>
            is_empty_value (cmp_value options xb))) \<and>
    (\<not> (is_empty_value xa \<and> is_empty_value xb) \<and>
     (is_empty_value xa \<or> py_truthy xa) \<and> (is_empty_value xb \<or> py_truthy xb) \<longrightarrow>
       (get_diff_type xa xb = ADDED \<longleftrightarrow> is_empty_value xa \<and> \<not> is_empty_value xb) \<and>
       (get_diff_type xa xb = DELETED \<longleftrightarrow> \<not> is_empty_value xa \<and> is_empty_value xb) \<and>
       (get_diff_type xa xb = MODIFIED \<longleftrightarrow> \<not> is_empty_value xa \<and> \<not> is_empty_value xb)))"
  by (rule conjI [OF impI [OF compare_cells_rule] conjI [OF smart_rule handler_rule]])

theorem cell_rule_by_path_witness:
  "normalized_values strip_options (Some (text_cell '' '')) (Some (text_cell ''x'')) = (PStr [], PStr ''x'') \<and>
   normalized_values fold_options (Some (text_cell '' Ab'')) (Some (text_cell ''aB '')) = (PStr ''ab'', PStr ''ab'') \<and>
   normalized_values fold_options (Some (text_cell ''A'')) (Some (number_cell 1 ''1'')) = (PStr ''A'', PNum 1 ''1'') \<and>
   compare_cells ''S'' 0 0 (Some empty_cell) (Some (text_cell [])) default_options = None \<and>
   compare_cells ''S'' 0 0 (Some (text_cell '' '')) (Some (text_cell ''x'')) strip_options =
     Some (mk_diff ''S'' 0 0 ADDED (PStr '' '') (PStr ''x'')) \<and>
   compare_cells ''S'' 0 0 (Some (number_cell 0 ''0'')) None default_options =
     Some (mk_diff ''S'' 0 0 DELETED (PNum 0 ''0'') PNone) \<and>
   compare_cells ''S'' 0 0 (Some (text_cell ''x'')) (Some (text_cell ''y'')) default_options =
     Some (mk_diff ''S'' 0 0 MODIFIED (PStr ''x'') (PStr ''y'')) \<and>
   smart_norm fold_smart_options (PStr '' Ab '') = PStr ''ab'' \<and>
   smart_norm default_smart_options (PStr '' Ab '') = PStr '' Ab '' \<and>
   smart_cell ''S'' 0 0 fold_smart_options (PStr '' Ab'') (PStr ''aB '') = None \<and>
   smart_cell ''S'' 0 0 default_smart_options PNone (PStr []) =
     Some (mk_diff ''S'' 0 0 ADDED PNone (PStr [])) \<and>
   smart_cell_skip_empty ''S'' 0 0 (default_smart_options\<lparr>smart_ignore_empty_rows := True\<rparr>)
     PNone (PStr []) = None \<and>
   smart_diff_type (PStr ''x'') PNone = DELETED \<and>
   smart_diff_type PNone (PNum 0 ''0'') = ADDED \<and>
   smart_diff_type (PStr ''x'') (PStr ''y'') = MODIFIED \<and>
   cmp_value fold_options (PStr '' Ab '') = PStr ''ab'' \<and>
   cmp_value default_options (PStr '' Ab '') = PStr '' Ab '' \<and>
   values_differ (PStr ''x'') PNone strip_options \<and>
   \<not> values_differ (PStr '' Ab'') (PStr ''aB '') fold_options \<and>
   values_differ (PStr ''Ab'') (PStr ''ab'') default_options \<and>
   values_differ PNone (PStr []) default_options \<and>
   \<not> values_differ PNone (PStr '' '') (fold_options\<lparr>ignore_empty_rows := True\<rparr>) \<and>
   get_diff_type (PStr ''x'') PNone = DELETED \<and>
   get_diff_type PNone (PStr ''x'') = ADDED \<and>
   get_diff_type (PStr ''x'') (PStr ''y'') = MODIFIED"
proof -
  note T = cell_rule_by_path [where options = strip_options and cell_a = "Some (text_cell '' '')"
      and cell_b = "Some (text_cell ''x'')" and va = "PStr []" and vb = "PStr ''x''"
      and s = "''S''" and r = 0 and c = 0 and sopts = default_smart_options
      and xa = "PStr ''x''" and xb = PNone]
  have n: "normalized_values strip_options (Some (text_cell '' '')) (Some (text_cell ''x''))
             = (PStr [], PStr ''x'')"
    by code_simp
  have e: "is_empty_value (PStr [])" "\<not> is_empty_value (PStr ''x'')" "\<not> py_eq (PStr []) (PStr ''x'')"
    "is_empty_value PNone" "py_truthy (PStr ''x'')"
    by (simp_all add: is_empty_value_def py_eq_def)
  have cv: "cmp_value strip_options (PStr ''x'') = PStr ''x''" "cmp_value strip_options PNone = PNone"
    by code_simp+
  from T [THEN conjunct1, THEN mp, OF n, THEN conjunct2] e
  obtain d where d: "compare_cells ''S'' 0 0 (Some (text_cell '' '')) (Some (text_cell ''x'')) strip_options = Some d"
    "diff_type d = ADDED"
    by auto
  have a: "compare_cells ''S'' 0 0 (Some (text_cell '' '')) (Some (text_cell ''x'')) strip_options =
     Some (mk_diff ''S'' 0 0 ADDED (PStr '' '') (PStr ''x''))"
    by code_simp
  from T [THEN conjunct2, THEN conjunct1] e
  have b: "smart_diff_type (PStr ''x'') PNone = DELETED" by simp
  from T [THEN conjunct2, THEN conjunct2] e cv
  have c: "values_differ (PStr ''x'') PNone strip_options" "get_diff_type (PStr ''x'') PNone = DELETED"
    by simp_all
  have n2: "normalized_values fold_options (Some (text_cell '' Ab'')) (Some (text_cell ''aB '')) = (PStr ''ab'', PStr ''ab'')"
    by code_simp
  have n3: "normalized_values fold_options (Some (text_cell ''A'')) (Some (number_cell 1 ''1'')) = (PStr ''A'', PNum 1 ''1'')"
    by code_simp
  have c1: "compare_cells ''S'' 0 0 (Some empty_cell) (Some (text_cell [])) default_options = None"
    by code_simp
  have c2: "compare_cells ''S'' 0 0 (Some (number_cell 0 ''0'')) None default_options =
     Some (mk_diff ''S'' 0 0 DELETED (PNum 0 ''0'') PNone)"
    by code_simp
  have c3: "compare_cells ''S'' 0 0 (Some (text_cell ''x'')) (Some (text_cell ''y'')) default_options =
     Some (mk_diff ''S'' 0 0 MODIFIED (PStr ''x'') (PStr ''y''))"
    by code_simp
  have s1: "smart_norm fold_smart_options (PStr '' Ab '') = PStr ''ab''" by code_simp
  have s2: "smart_norm default_smart_options (PStr '' Ab '') = PStr '' Ab ''" by code_simp
  have s3: "smart_cell ''S'' 0 0 fold_smart_options (PStr '' Ab'') (PStr ''aB '') = None" by code_simp
  have s4: "smart_cell ''S'' 0 0 default_smart_options PNone (PStr []) =
     Some (mk_diff ''S'' 0 0 ADDED PNone (PStr []))" by code_simp
  have s5: "smart_cell_skip_empty ''S'' 0 0 (default_smart_options\<lparr>smart_ignore_empty_rows := True\<rparr>)
     PNone (PStr []) = None" by code_simp
  have s6: "smart_diff_type PNone (PNum 0 ''0'') = ADDED" by code_simp
  have s7: "smart_diff_type (PStr ''x'') (PStr ''y'') = MODIFIED" by code_simp
  have h1: "cmp_value fold_options (PStr '' Ab '') = PStr ''ab''" by code_simp
  have h2: "cmp_value default_options (PStr '' Ab '') = PStr '' Ab ''" by code_simp
  have h3: "\<not> values_differ (PStr '' Ab'') (PStr ''aB '') fold_options" by code_simp
  have h4: "values_differ (PStr ''Ab'') (PStr ''ab'') default_options" by code_simp
  have h5: "values_differ PNone (PStr []) default_options" by code_simp
  have h6: "\<not> values_differ PNone (PStr '' '') (fold_options\<lparr>ignore_empty_rows := True\<rparr>)" by code_simp
  have h7: "get_diff_type PNone (PStr ''x'') = ADDED" by code_simp
  have h8: "get_diff_type (PStr ''x'') (PStr ''y'') = MODIFIED" by code_simp
  from n n2 n3 c1 a c2 c3 s1 s2 s3 s4 s5 b s6 s7 h1 h2 c(1) h3 h4 h5 h6 c(2) h7 h8
  show ?thesis by (intro conjI)
qed

lemma candidate_pairs_product:
  "candidate_pairs la lb =
     map (\<lambda>(i, j). (nat \<bar>int (fst (la ! i)) - int (fst (lb ! j))\<bar>, i, j))
       (List.product [0..<length la] [0..<length lb])"
proof -
  have "\<And>xs ys. concat (map (\<lambda>i. map (\<lambda>j. (nat \<bar>int (fst (la ! i)) - int (fst (lb ! j))\<bar>, i, j)) ys) xs)
      = map (\<lambda>(i, j). (nat \<bar>int (fst (la ! i)) - int (fst (lb ! j))\<bar>, i, j)) (List.product xs ys)"
    subgoal for xs ys by (induction xs) (simp_all add: comp_def)
    done
  then show ?thesis unfolding candidate_pairs_def by simp
qed

lemma candidate_pairs_snd: "map snd (candidate_pairs la lb) = List.product [0..<length la] [0..<length lb]"
  unfolding candidate_pairs_product by (simp add: comp_def case_prod_unfold)

lemma candidate_pairs_length: "length (candidate_pairs la lb) = length la * length lb"
  unfolding candidate_pairs_product by simp

lemma distinct_candidates: "distinct (map snd (candidate_pairs la lb))"
  unfolding candidate_pairs_snd by (simp add: distinct_product)

lemma sorted_pairs_props:
  "sorted (map fst (sorted_pairs la lb)) \<and>
   mset (sorted_pairs la lb) = mset (candidate_pairs la lb) \<and>
   (\<forall>k. filter (\<lambda>p. fst p = k) (sorted_pairs la lb) = filter (\<lambda>p. fst p = k) (candidate_pairs la lb))"
  unfolding sorted_pairs_def by (simp add: sort_key_stable)

lemma distinct_sorted_pairs: "distinct (map snd (sorted_pairs la lb))"
proof -
  have "mset (map snd (sorted_pairs la lb)) = mset (map snd (candidate_pairs la lb))"
    unfolding sorted_pairs_def by simp
  then show ?thesis using distinct_candidates [of la lb] by (metis mset_eq_imp_distinct_iff)
qed

lemma greedy_append: "greedy (xs @ ys) st = greedy ys (greedy xs st)"
proof (induction xs arbitrary: st)
  case Nil
  then show ?case by simp
next
  case (Cons p xs)
  obtain d i j where p: "p = (d, i, j)" by (cases p)
  obtain ms ua ub where st: "st = (ms, ua, ub)" by (cases st)
  show ?case using Cons.IH by (simp add: p st)
qed

lemma greedy_extends:
  "greedy ps (ms, ua, ub) = (ms', ua', ub') \<Longrightarrow>
   \<exists>extra. ms' = ms @ extra \<and> set extra \<subseteq> snd ` set ps \<and>
     ua' = ua \<union> fst ` set extra \<and> ub' = ub \<union> snd ` set extra \<and>
     (\<forall>(i, j)\<in>set extra. i \<notin> ua \<and> j \<notin> ub) \<and>
     distinct (map fst extra) \<and> distinct (map snd extra) \<and>
     (\<forall>(d, i, j)\<in>set ps. i \<in> ua' \<or> j \<in> ub')"
proof (induction ps arbitrary: ms ua ub)
  case Nil
  then show ?case by simp
next
  case (Cons p ps)
  obtain d i j where p: "p = (d, i, j)" by (cases p)
  show ?case
  proof (cases "i \<notin> ua \<and> j \<notin> ub")
    case True
    with Cons.prems p have "greedy ps (ms @ [(i, j)], insert i ua, insert j ub) = (ms', ua', ub')"
      by simp
    from Cons.IH [OF this] obtain extra where e:
      "ms' = (ms @ [(i, j)]) @ extra" "set extra \<subseteq> snd ` set ps"
      "ua' = insert i ua \<union> fst ` set extra" "ub' = insert j ub \<union> snd ` set extra"
      "\<forall>(i', j')\<in>set extra. i' \<notin> insert i ua \<and> j' \<notin> insert j ub"
      "distinct (map fst extra)" "distinct (map snd extra)"
      "\<forall>(d, i, j)\<in>set ps. i \<in> ua' \<or> j \<in> ub'"
      by blast
    show ?thesis
    proof (intro exI [of _ "(i, j) # extra"] conjI)
      show "ms' = ms @ (i, j) # extra" using e(1) by simp
      show "set ((i, j) # extra) \<subseteq> snd ` set (p # ps)" using e(2) p by force
      show "ua' = ua \<union> fst ` set ((i, j) # extra)" using e(3) by auto
      show "ub' = ub \<union> snd ` set ((i, j) # extra)" using e(4) by auto
      show "\<forall>(i, j)\<in>set ((i, j) # extra). i \<notin> ua \<and> j \<notin> ub" using e(5) True by auto
      show "distinct (map fst ((i, j) # extra))" using e(5,6) by force
      show "distinct (map snd ((i, j) # extra))" using e(5,7) by force
      show "\<forall>(d, i, j)\<in>set (p # ps). i \<in> ua' \<or> j \<in> ub'" using e(3,8) p by auto
    qed
  next
    case False
    with Cons.prems p have "greedy ps (ms, ua, ub) = (ms', ua', ub')" by auto
    from Cons.IH [OF this] obtain extra where e:
      "ms' = ms @ extra" "set extra \<subseteq> snd ` set ps"
      "ua' = ua \<union> fst ` set extra" "ub' = ub \<union> snd ` set extra"
      "\<forall>(i', j')\<in>set extra. i' \<notin> ua \<and> j' \<notin> ub"
      "distinct (map fst extra)" "distinct (map snd extra)"
      "\<forall>(d, i, j)\<in>set ps. i \<in> ua' \<or> j \<in> ub'"
      by blast
    show ?thesis
    proof (intro exI [of _ extra] conjI)
      show "set extra \<subseteq> snd ` set (p # ps)" using e(2) by auto
      show "\<forall>(d, i, j)\<in>set (p # ps). i \<in> ua' \<or> j \<in> ub'" using e(3,4,8) p False by auto
    qed (use e in auto)
  qed
qed

lemma greedy_match_props:
  assumes "greedy_match la lb = (ms, ua, ub)"
  shows "distinct (map fst ms) \<and> distinct (map snd ms) \<and>
         ua = fst ` set ms \<and> ub = snd ` set ms \<and>
         (\<forall>(i, j)\<in>set ms. i < length la \<and> j < length lb) \<and>
         (\<forall>i<length la. \<forall>j<length lb. i \<in> ua \<or> j \<in> ub)"
proof -
  from assms have g: "greedy (sorted_pairs la lb) ([], {}, {}) = (ms, ua, ub)"
    by (simp add: greedy_match_def)
  from greedy_extends [OF g] obtain extra where e:
    "ms = [] @ extra" "set extra \<subseteq> snd ` set (sorted_pairs la lb)"
    "ua = {} \<union> fst ` set extra" "ub = {} \<union> snd ` set extra"
    "distinct (map fst extra)" "distinct (map snd extra)"
    "\<forall>(d, i, j)\<in>set (sorted_pairs la lb). i \<in> ua \<or> j \<in> ub"
    by blast
  have sp: "snd ` set (sorted_pairs la lb) = {0..<length la} \<times> {0..<length lb}"
  proof -
    have "snd ` set (sorted_pairs la lb) = set (map snd (candidate_pairs la lb))"
      unfolding sorted_pairs_def by simp
    then show ?thesis unfolding candidate_pairs_snd by simp
  qed
  have a: "\<forall>(i, j)\<in>set ms. i < length la \<and> j < length lb"
    using e(1,2) sp by auto
  have b: "\<forall>i<length la. \<forall>j<length lb. i \<in> ua \<or> j \<in> ub"
  proof (intro allI impI)
    fix i j assume "i < length la" "j < length lb"
    then have "(i, j) \<in> snd ` set (sorted_pairs la lb)" using sp by simp
    then obtain d where "(d, i, j) \<in> set (sorted_pairs la lb)" by force
    with e(7) show "i \<in> ua \<or> j \<in> ub" by auto
  qed
  from e a b show ?thesis by simp
qed

lemma greedy_match_length:
  assumes "greedy_match la lb = (ms, ua, ub)"
  shows "length ms = min (length la) (length lb)"
proof -
  note P = greedy_match_props [OF assms]
  have ca: "card ua = length ms" using P by (metis distinct_card length_map set_map)
  have cb: "card ub = length ms" using P by (metis distinct_card length_map set_map)
  have sa: "ua \<subseteq> {0..<length la}" using P by force
  have sb: "ub \<subseteq> {0..<length lb}" using P by force
  have la: "length ms \<le> length la" using card_mono [OF _ sa] ca by simp
  have lb: "length ms \<le> length lb" using card_mono [OF _ sb] cb by simp
  have "\<not> (length ms < length la \<and> length ms < length lb)"
  proof
    assume h: "length ms < length la \<and> length ms < length lb"
    have "ua \<noteq> {0..<length la}" using h ca by auto
    with sa have "\<exists>i. i \<in> {0..<length la} \<and> i \<notin> ua" by blast
    then obtain i where i: "i < length la" "i \<notin> ua" by auto
    have "ub \<noteq> {0..<length lb}" using h cb by auto
    with sb have "\<exists>j. j \<in> {0..<length lb} \<and> j \<notin> ub" by blast
    then obtain j where j: "j < length lb" "j \<notin> ub" by auto
    from P i j show False by blast
  qed
  with la lb show ?thesis by linarith
qed

lemma greedy_accept_iff:
  assumes k: "k < length sp" and dist: "distinct (map snd sp)" and p: "sp ! k = (d, i, j)"
    and gk: "greedy (take k sp) ([], {}, {}) = (ms_k, ua_k, ub_k)"
    and g: "greedy sp ([], {}, {}) = (ms, ua, ub)"
  shows "(i, j) \<in> set ms \<longleftrightarrow> i \<notin> ua_k \<and> j \<notin> ub_k"
proof -
  have split: "sp = take k sp @ (d, i, j) # drop (Suc k) sp"
    using id_take_nth_drop [OF k] p by simp
  have nin1: "(i, j) \<notin> snd ` set (take k sp)" and nin2: "(i, j) \<notin> snd ` set (drop (Suc k) sp)"
  proof -
    have "distinct (map snd (take k sp) @ (i, j) # map snd (drop (Suc k) sp))"
      using dist by (subst (asm) split) simp
    then show "(i, j) \<notin> snd ` set (take k sp)" "(i, j) \<notin> snd ` set (drop (Suc k) sp)"
      by auto
  qed
  from greedy_extends [OF gk] obtain ek where ek: "ms_k = [] @ ek" "set ek \<subseteq> snd ` set (take k sp)"
    by blast
  have final: "greedy (drop (Suc k) sp) (greedy [(d, i, j)] (ms_k, ua_k, ub_k)) = (ms, ua, ub)"
  proof -
    have "greedy sp ([], {}, {}) = greedy ((d, i, j) # drop (Suc k) sp) (greedy (take k sp) ([], {}, {}))"
      by (subst split) (rule greedy_append)
    also have "\<dots> = greedy (drop (Suc k) sp) (greedy [(d, i, j)] (ms_k, ua_k, ub_k))"
      by (simp add: gk)
    finally show ?thesis using g by simp
  qed
  show ?thesis
  proof (cases "i \<notin> ua_k \<and> j \<notin> ub_k")
    case True
    then have "greedy (drop (Suc k) sp) (ms_k @ [(i, j)], insert i ua_k, insert j ub_k) = (ms, ua, ub)"
      using final by simp
    from greedy_extends [OF this] obtain e where "ms = (ms_k @ [(i, j)]) @ e" by blast
    with True show ?thesis by simp
  next
    case False
    then have "greedy (drop (Suc k) sp) (ms_k, ua_k, ub_k) = (ms, ua, ub)"
      using final by auto
    from greedy_extends [OF this] obtain e where "ms = ms_k @ e" "set e \<subseteq> snd ` set (drop (Suc k) sp)"
      by blast
    with ek nin1 nin2 have "(i, j) \<notin> set ms" by auto
    with False show ?thesis by simp
  qed
qed

lemma map_filter_enumerate:
  "List.map_filter (\<lambda>(c, v). if P v then Some (f c v) else None) xs =
     map (\<lambda>(c, v). f c v) (filter (\<lambda>(c, v). P v) xs)"
  by (induction xs) (auto simp: List.map_filter_simps)

lemma deleted_row_eq:
  "deleted_row sn off (r, vals) =
     map (\<lambda>(c, v). mk_diff sn r (off + c) DELETED v PNone)
       (filter (\<lambda>(c, v). not_blank v) (enumerate 0 vals))"
  unfolding deleted_row_def by (simp add: map_filter_enumerate)

lemma added_row_eq:
  "added_row sn off (r, vals) =
     map (\<lambda>(c, v). mk_diff_b sn r (off + c) ADDED PNone v r (off + c))
       (filter (\<lambda>(c, v). not_blank v) (enumerate 0 vals))"
  unfolding added_row_def by (simp add: map_filter_enumerate)

lemma greedy_example:
  "greedy_match [(0, ra0), (5, ra5)] [(1, rb1)] = ([(0, 0)], {0}, {0})"
  by (simp add: greedy_match_def sorted_pairs_def candidate_pairs_def upt_rec)

lemma process_key_example:
  "process_key sn cm skip oa ob opts [(0, ra0), (5, ra5)] [(1, rb1)] =
     compare_matched sn cm skip oa ob opts (0, ra0) (1, rb1) @ deleted_row sn oa (5, ra5)"
  unfolding process_key_def greedy_example by (simp add: upt_rec)

text \<open>
  Claim C2, as the code has it. For the row lists \<open>la\<close> and \<open>lb\<close> of one key, key
  matching builds all \<open>length la * length lb\<close> candidate pairs, in the order of the
  index pairs \<open>(i, j)\<close> with \<open>i\<close> outermost, each with the distance of the two row
  indices. The sorted list is a permutation of the candidates in ascending distance, and
  pairs of equal distance keep the order of the candidate list (the lower list index
  first). The greedy pass accepts the pair at a position of the sorted list exactly when
  neither of its rows was consumed by the pairs before it; the accepted pairs use every
  row at most once, and there are \<open>min (length la) (length lb)\<close> of them. With A's rows
  0 and 5 and B's row 1 under one key, rows 0 and 1 are matched, and row 5 gives one
  Deleted record for every cell whose value is not \<open>None\<close> and whose text is not
  empty after \<open>strip\<close>, key columns included; a cell holding only white space gets
  no record.
\<close>

theorem greedy_key_matching:
  "candidate_pairs la lb =
     map (\<lambda>(i, j). (nat \<bar>int (fst (la ! i)) - int (fst (lb ! j))\<bar>, i, j))
       (List.product [0..<length la] [0..<length lb]) \<and>
   length (candidate_pairs la lb) = length la * length lb \<and>
   sorted (map fst (sorted_pairs la lb)) \<and>
   mset (sorted_pairs la lb) = mset (candidate_pairs la lb) \<and>
   (\<forall>k. filter (\<lambda>p. fst p = k) (sorted_pairs la lb) = filter (\<lambda>p. fst p = k) (candidate_pairs la lb)) \<and>
   (\<forall>k<length (sorted_pairs la lb).
      snd (sorted_pairs la lb ! k) \<in> set (fst (greedy_match la lb)) \<longleftrightarrow>
        fst (snd (sorted_pairs la lb ! k)) \<notin> fst (snd (greedy (take k (sorted_pairs la lb)) ([], {}, {}))) \<and>
        snd (snd (sorted_pairs la lb ! k)) \<notin> snd (snd (greedy (take k (sorted_pairs la lb)) ([], {}, {})))) \<and>
   distinct (map fst (fst (greedy_match la lb))) \<and>
   distinct (map snd (fst (greedy_match la lb))) \<and>
   length (fst (greedy_match la lb)) = min (length la) (length lb) \<and>
   fst (snd (greedy_match la lb)) = fst ` set (fst (greedy_match la lb)) \<and>
   snd (snd (greedy_match la lb)) = snd ` set (fst (greedy_match la lb)) \<and>
   process_key sn cm skip oa ob opts [(0, ra0), (5, ra5)] [(1, rb1)] =
     compare_matched sn cm skip oa ob opts (0, ra0) (1, rb1) @ deleted_row sn oa (5, ra5) \<and>
   deleted_row sn oa (5, ra5) =
     map (\<lambda>(c, v). mk_diff sn 5 (oa + c) DELETED v PNone)
       (filter (\<lambda>(c, v). v \<noteq> PNone \<and> py_strip (py_str v) \<noteq> []) (enumerate 0 ra5))"
proof -
  obtain ms ua ub where gm: "greedy_match la lb = (ms, ua, ub)" by (cases "greedy_match la lb")
  note P = greedy_match_props [OF gm]
  have acc: "\<forall>k<length (sorted_pairs la lb).
      snd (sorted_pairs la lb ! k) \<in> set (fst (greedy_match la lb)) \<longleftrightarrow>
        fst (snd (sorted_pairs la lb ! k)) \<notin> fst (snd (greedy (take k (sorted_pairs la lb)) ([], {}, {}))) \<and>
        snd (snd (sorted_pairs la lb ! k)) \<notin> snd (snd (greedy (take k (sorted_pairs la lb)) ([], {}, {})))"
  proof (intro allI impI)
    fix k assume k: "k < length (sorted_pairs la lb)"
    obtain d i j where p: "sorted_pairs la lb ! k = (d, i, j)" by (cases "sorted_pairs la lb ! k")
    obtain ms_k ua_k ub_k where gk: "greedy (take k (sorted_pairs la lb)) ([], {}, {}) = (ms_k, ua_k, ub_k)"
      by (cases "greedy (take k (sorted_pairs la lb)) ([], {}, {})")
    have g: "greedy (sorted_pairs la lb) ([], {}, {}) = (ms, ua, ub)"
      using gm by (simp add: greedy_match_def)
    from greedy_accept_iff [OF k distinct_sorted_pairs p gk g]
    show "snd (sorted_pairs la lb ! k) \<in> set (fst (greedy_match la lb)) \<longleftrightarrow>
        fst (snd (sorted_pairs la lb ! k)) \<notin> fst (snd (greedy (take k (sorted_pairs la lb)) ([], {}, {}))) \<and>
        snd (snd (sorted_pairs la lb ! k)) \<notin> snd (snd (greedy (take k (sorted_pairs la lb)) ([], {}, {})))"
      by (simp add: p gk gm)
  qed
  have len: "length (fst (greedy_match la lb)) = min (length la) (length lb)"
    using greedy_match_length [OF gm] gm by simp
  have inv: "distinct (map fst (fst (greedy_match la lb)))" "distinct (map snd (fst (greedy_match la lb)))"
    "fst (snd (greedy_match la lb)) = fst ` set (fst (greedy_match la lb))"
    "snd (snd (greedy_match la lb)) = snd ` set (fst (greedy_match la lb))"
    using P gm by simp_all
  note S = sorted_pairs_props [of la lb]
  show ?thesis
    using candidate_pairs_product [of la lb] candidate_pairs_length [of la lb]
      S [THEN conjunct1] S [THEN conjunct2, THEN conjunct1] S [THEN conjunct2, THEN conjunct2]
      acc inv len
      process_key_example [of sn cm skip oa ob opts ra0 ra5 rb1]
      deleted_row_eq [of sn oa 5 ra5, unfolded not_blank_def]
    by (intro conjI)
qed

lemma key_demo_value:
  "smart_match_sheet ''S'' key_demo_a key_demo_b key_demo_config None default_options [''x|1''] =
     Inr [mk_diff_b ''S'' 0 2 MODIFIED (PStr ''a'') (PStr ''c'') 1 2,
          mk_diff ''S'' 5 0 DELETED (PStr ''x'') PNone,
          mk_diff ''S'' 5 1 DELETED (PStr ''1'') PNone,
          mk_diff ''S'' 5 5 DELETED (PStr ''b'') PNone]"
  by code_simp

text \<open>
  Claim C2 as stated fails on a cell of white space: in row 5 of A the cell in column 4
  holds one space, so it is not empty (\<open>is_empty\<close> is false), yet the unmatched row
  gives no record for it.
\<close>

theorem blank_cell_of_unmatched_row_unreported:
  "get_cell key_demo_a 5 4 = Some (text_cell '' '') \<and>
   \<not> is_empty (text_cell '' '') \<and>
   smart_match_sheet ''S'' key_demo_a key_demo_b key_demo_config None default_options [''x|1''] =
     Inr [mk_diff_b ''S'' 0 2 MODIFIED (PStr ''a'') (PStr ''c'') 1 2,
          mk_diff ''S'' 5 0 DELETED (PStr ''x'') PNone,
          mk_diff ''S'' 5 1 DELETED (PStr ''1'') PNone,
          mk_diff ''S'' 5 5 DELETED (PStr ''b'') PNone]"
proof -
  have a: "get_cell key_demo_a 5 4 = Some (text_cell '' '')" by code_simp
  have b: "\<not> is_empty (text_cell '' '')" by code_simp
  from a b key_demo_value show ?thesis by (intro conjI)
qed

theorem greedy_key_matching_witness:
  "(0, 0) \<in> set (fst (greedy_match
       [(0, [PStr ''x'', PStr ''1'', PStr ''a'', PNone, PNone, PNone]),
        (5, [PStr ''x'', PStr ''1'', PNone, PStr [], PStr '' '', PStr ''b''])]
       [(1, [PStr ''x'', PStr ''1'', PStr ''c'', PNone, PNone, PNone])])) \<and>
   length (fst (greedy_match
       [(0, [PStr ''x'', PStr ''1'', PStr ''a'', PNone, PNone, PNone]),
        (5, [PStr ''x'', PStr ''1'', PNone, PStr [], PStr '' '', PStr ''b''])]
       [(1, [PStr ''x'', PStr ''1'', PStr ''c'', PNone, PNone, PNone])])) = 1 \<and>
   sorted_pairs
       [(0, [PStr ''x'']), (5, [PStr ''y'']), (2, [PStr ''z''])] [(1, [PStr ''u'']), (4, [PStr ''v''])] =
     [(1, 0, 0), (1, 1, 1), (1, 2, 0), (2, 2, 1), (4, 0, 1), (4, 1, 0)] \<and>
   greedy_match
       [(0, [PStr ''x'']), (5, [PStr ''y'']), (2, [PStr ''z''])] [(1, [PStr ''u'']), (4, [PStr ''v''])] =
     ([(0, 0), (1, 1)], {0, 1}, {0, 1}) \<and>
   deleted_row ''S'' 0 (5, [PStr ''x'', PStr ''1'', PNone, PStr [], PStr '' '', PStr ''b'']) =
     [mk_diff ''S'' 5 0 DELETED (PStr ''x'') PNone,
      mk_diff ''S'' 5 1 DELETED (PStr ''1'') PNone,
      mk_diff ''S'' 5 5 DELETED (PStr ''b'') PNone] \<and>
   process_key ''S'' [] (skip_key_cols key_demo_config) 0 0 default_options
       [(0, [PStr ''x'', PStr ''1'', PStr ''a'', PNone, PNone, PNone]),
        (5, [PStr ''x'', PStr ''1'', PNone, PStr [], PStr '' '', PStr ''b''])]
       [(1, [PStr ''x'', PStr ''1'', PStr ''c'', PNone, PNone, PNone])] =
     [mk_diff_b ''S'' 0 2 MODIFIED (PStr ''a'') (PStr ''c'') 1 2,
      mk_diff ''S'' 5 0 DELETED (PStr ''x'') PNone,
      mk_diff ''S'' 5 1 DELETED (PStr ''1'') PNone,
      mk_diff ''S'' 5 5 DELETED (PStr ''b'') PNone] \<and>
   smart_match_sheet ''S'' key_demo_a key_demo_b key_demo_config None default_options [''x|1''] =
     Inr [mk_diff_b ''S'' 0 2 MODIFIED (PStr ''a'') (PStr ''c'') 1 2,
          mk_diff ''S'' 5 0 DELETED (PStr ''x'') PNone,
          mk_diff ''S'' 5 1 DELETED (PStr ''1'') PNone,
          mk_diff ''S'' 5 5 DELETED (PStr ''b'') PNone]"
proof -
  define ra0 where "ra0 = [PStr ''x'', PStr ''1'', PStr ''a'', PNone, PNone, PNone]"
  define ra5 where "ra5 = [PStr ''x'', PStr ''1'', PNone, PStr [], PStr '' '', PStr ''b'']"
  define rb1 where "rb1 = [PStr ''x'', PStr ''1'', PStr ''c'', PNone, PNone, PNone]"
  define la where "la = [(0::nat, ra0), (5, ra5)]"
  define lb where "lb = [(1::nat, rb1)]"
  note T = greedy_key_matching [of la lb "''S''" "[]" "skip_key_cols key_demo_config" 0 0
      default_options ra0 ra5 rb1]
  note T6 = T [THEN conjunct2, THEN conjunct2, THEN conjunct2, THEN conjunct2, THEN conjunct2,
      THEN conjunct1]
  note T9 = T [THEN conjunct2, THEN conjunct2, THEN conjunct2, THEN conjunct2, THEN conjunct2,
      THEN conjunct2, THEN conjunct2, THEN conjunct2, THEN conjunct1]
  note T12 = T [THEN conjunct2, THEN conjunct2, THEN conjunct2, THEN conjunct2, THEN conjunct2,
      THEN conjunct2, THEN conjunct2, THEN conjunct2, THEN conjunct2, THEN conjunct2,
      THEN conjunct2, THEN conjunct1]
  note T13 = T [THEN conjunct2, THEN conjunct2, THEN conjunct2, THEN conjunct2, THEN conjunct2,
      THEN conjunct2, THEN conjunct2, THEN conjunct2, THEN conjunct2, THEN conjunct2,
      THEN conjunct2, THEN conjunct2]
  have sp: "sorted_pairs la lb = [(1, 0, 0), (4, 1, 0)]"
    unfolding la_def lb_def by (simp add: sorted_pairs_def candidate_pairs_def upt_rec)
  have k0: "0 < length (sorted_pairs la lb)" by (simp add: sp)
  from T6 [rule_format, OF k0]
  have a: "(0, 0) \<in> set (fst (greedy_match la lb))" by (simp add: sp)
  from T9 have b: "length (fst (greedy_match la lb)) = 1" by (simp add: la_def lb_def)
  have cm: "compare_matched ''S'' [] (skip_key_cols key_demo_config) 0 0 default_options
              (0, ra0) (1, rb1)
            = [mk_diff_b ''S'' 0 2 MODIFIED (PStr ''a'') (PStr ''c'') 1 2]"
    unfolding ra0_def rb1_def by code_simp
  have dr: "map (\<lambda>(c, v). mk_diff ''S'' 5 (0 + c) DELETED v PNone)
              (filter (\<lambda>(c, v). v \<noteq> PNone \<and> py_strip (py_str v) \<noteq> []) (enumerate 0 ra5))
            = [mk_diff ''S'' 5 0 DELETED (PStr ''x'') PNone,
               mk_diff ''S'' 5 1 DELETED (PStr ''1'') PNone,
               mk_diff ''S'' 5 5 DELETED (PStr ''b'') PNone]"
    unfolding ra5_def by code_simp
  have d: "deleted_row ''S'' 0 (5, ra5) =
     [mk_diff ''S'' 5 0 DELETED (PStr ''x'') PNone,
      mk_diff ''S'' 5 1 DELETED (PStr ''1'') PNone,
      mk_diff ''S'' 5 5 DELETED (PStr ''b'') PNone]"
    using T13 dr by simp
  have c: "process_key ''S'' [] (skip_key_cols key_demo_config) 0 0 default_options la lb =
     [mk_diff_b ''S'' 0 2 MODIFIED (PStr ''a'') (PStr ''c'') 1 2,
      mk_diff ''S'' 5 0 DELETED (PStr ''x'') PNone,
      mk_diff ''S'' 5 1 DELETED (PStr ''1'') PNone,
      mk_diff ''S'' 5 5 DELETED (PStr ''b'') PNone]"
    using T12 d cm unfolding la_def lb_def by simp
  have s3: "sorted_pairs
       [(0, [PStr ''x'']), (5, [PStr ''y'']), (2, [PStr ''z''])] [(1, [PStr ''u'']), (4, [PStr ''v''])] =
     [(1, 0, 0), (1, 1, 1), (1, 2, 0), (2, 2, 1), (4, 0, 1), (4, 1, 0)]"
    by (simp add: sorted_pairs_def candidate_pairs_def upt_rec)
  have g3: "greedy_match
       [(0, [PStr ''x'']), (5, [PStr ''y'']), (2, [PStr ''z''])] [(1, [PStr ''u'']), (4, [PStr ''v''])] =
     ([(0, 0), (1, 1)], {0, 1}, {0, 1})"
    unfolding greedy_match_def s3 by auto
  from a b s3 g3 d c key_demo_value show ?thesis
    unfolding la_def lb_def ra0_def ra5_def rb1_def by (intro conjI)
qed

lemma dict_get_list_append:
  "dict_get_list (dict_append d k x) k' =
     (if k' = k then dict_get_list d k @ [x] else dict_get_list d k')"
  unfolding dict_get_list_def by (induction d) auto

lemma dict_append_map_fst:
  "map fst (dict_append d k x) = (if k \<in> set (map fst d) then map fst d else map fst d @ [k])"
proof (induction d)
  case Nil
  then show ?case by simp
next
  case (Cons p d)
  obtain k' xs where p: "p = (k', xs)" by (cases p)
  from Cons show ?case by (simp add: p)
qed

lemma dict_append_keys: "set (map fst (dict_append d k x)) = insert k (set (map fst d))"
  unfolding dict_append_map_fst by auto

lemma dict_append_distinct: "distinct (map fst d) \<Longrightarrow> distinct (map fst (dict_append d k x))"
  unfolding dict_append_map_fst by auto

lemma build_rows_get:
  assumes "build_rows col1 col2 options cands d = Inr d'" "k \<noteq> []"
  shows "dict_get_list d' k = dict_get_list d k @ filter (keyed_as col1 col2 options k) cands"
  using assms
proof (induction cands arbitrary: d)
  case Nil
  then show ?case by simp
next
  case (Cons p cands)
  obtain i r where p: "p = (i, r)" by (cases p)
  show ?case
  proof (cases "make_key r col1 col2 options")
    case (Inl e)
    with Cons.prems p show ?thesis by simp
  next
    case (Inr ko)
    show ?thesis
    proof (cases ko)
      case None
      with Inr Cons.prems p have "build_rows col1 col2 options cands d = Inr d'" by simp
      from Cons.IH [OF this Cons.prems(2)] show ?thesis
        by (simp add: p keyed_as_def Inr None)
    next
      case (Some nk)
      show ?thesis
      proof (cases "nk = []")
        case True
        with Some Inr Cons.prems p have "build_rows col1 col2 options cands d = Inr d'" by simp
        from Cons.IH [OF this Cons.prems(2)] show ?thesis
          using Cons.prems(2) by (auto simp add: p keyed_as_def Inr Some True)
      next
        case False
        with Some Inr Cons.prems p
        have "build_rows col1 col2 options cands (dict_append d nk (i, r)) = Inr d'" by simp
        from Cons.IH [OF this Cons.prems(2)] show ?thesis
          by (auto simp add: p keyed_as_def Inr Some dict_get_list_append)
      qed
    qed
  qed
qed

lemma build_rows_keys:
  assumes "build_rows col1 col2 options cands d = Inr d'"
  shows "set (map fst d') = set (map fst d) \<union>
           {k. k \<noteq> [] \<and> (\<exists>e\<in>set cands. keyed_as col1 col2 options k e)} \<and>
         (distinct (map fst d) \<longrightarrow> distinct (map fst d'))"
  using assms
proof (induction cands arbitrary: d)
  case Nil
  then show ?case by simp
next
  case (Cons p cands)
  obtain i r where p: "p = (i, r)" by (cases p)
  show ?case
  proof (cases "make_key r col1 col2 options")
    case (Inl e)
    with Cons.prems p show ?thesis by simp
  next
    case (Inr ko)
    show ?thesis
    proof (cases ko)
      case None
      with Inr Cons.prems p have "build_rows col1 col2 options cands d = Inr d'" by simp
      from Cons.IH [OF this] show ?thesis
        by (auto simp add: p keyed_as_def Inr None)
    next
      case (Some nk)
      show ?thesis
      proof (cases "nk = []")
        case True
        with Some Inr Cons.prems p have "build_rows col1 col2 options cands d = Inr d'" by simp
        from Cons.IH [OF this] show ?thesis
          by (auto simp add: p keyed_as_def Inr Some True)
      next
        case False
        with Some Inr Cons.prems p
        have "build_rows col1 col2 options cands (dict_append d nk (i, r)) = Inr d'" by simp
        note IH = Cons.IH [OF this]
        have mk: "\<And>k. keyed_as col1 col2 options k p \<longleftrightarrow> k = nk"
          by (auto simp add: keyed_as_def p Inr Some)
        have "{k. k \<noteq> [] \<and> (\<exists>e\<in>set (p # cands). keyed_as col1 col2 options k e)} =
              insert nk {k. k \<noteq> [] \<and> (\<exists>e\<in>set cands. keyed_as col1 col2 options k e)}"
          using False by (auto simp add: mk)
        then have k1: "set (map fst d') = set (map fst d) \<union>
           {k. k \<noteq> [] \<and> (\<exists>e\<in>set (p # cands). keyed_as col1 col2 options k e)}"
          using IH [THEN conjunct1] dict_append_keys [of d nk "(i, r)"] by auto
        have k2: "distinct (map fst d) \<longrightarrow> distinct (map fst d')"
          using IH [THEN conjunct2] dict_append_distinct [of d nk "(i, r)"] by simp
        from k1 k2 show ?thesis by (rule conjI)
      qed
    qed
  qed
qed

lemma row_at_nonneg: "0 \<le> c \<Longrightarrow> row_at r (Some c) = Inr (row_get r (nat c))"
  by (simp add: row_at_def row_get_def nat_less_iff)

lemma py_lower_Nil [simp]: "py_lower s = [] \<longleftrightarrow> s = []"
  by (simp add: py_lower_def)

lemma make_key_total:
  assumes "0 \<le> c1" "case c2 of None \<Rightarrow> True | Some c \<Rightarrow> 0 \<le> c"
  shows "(\<not> not_blank (row_get r (nat c1)) \<longrightarrow> make_key r (Some c1) c2 options = Inr None) \<and>
         (not_blank (row_get r (nat c1)) \<longrightarrow>
            (\<exists>k. k \<noteq> [] \<and> make_key r (Some c1) c2 options = Inr (Some k)))"
  using assms
  by (cases c2) (auto simp add: make_key_def row_at_nonneg not_blank_def Let_def)

lemma build_rows_total:
  assumes "0 \<le> c1" "case c2 of None \<Rightarrow> True | Some c \<Rightarrow> 0 \<le> c"
  shows "\<exists>d'. build_rows (Some c1) c2 options cands d = Inr d'"
proof (induction cands arbitrary: d)
  case Nil
  then show ?case by simp
next
  case (Cons p cands)
  obtain i r where p: "p = (i, r)" by (cases p)
  from make_key_total [OF assms, of r options]
  consider "make_key r (Some c1) c2 options = Inr None"
    | k where "make_key r (Some c1) c2 options = Inr (Some k)" by blast
  then show ?case
  proof cases
    case 1
    then show ?thesis using Cons.IH [of d] by (simp add: p)
  next
    case 2
    then show ?thesis using Cons.IH [of d] Cons.IH [of "dict_append d k (i, r)"] by (simp add: p)
  qed
qed

lemma keyed_candidates_rows:
  "keyed_candidates sh header_row =
     map (\<lambda>i. (i, extract_row_data sh (int i)))
       (filter (\<lambda>i. Some (int i) \<noteq> header_row) [0..<row_count sh])"
  unfolding keyed_candidates_def by (cases header_row) auto

lemma py_eq_sym: "py_eq a b \<Longrightarrow> py_eq b a"
  by (auto simp: py_eq_def split: option.splits)

lemma py_eq_trans: "py_eq a b \<Longrightarrow> py_eq b c \<Longrightarrow> py_eq a c"
  by (auto simp: py_eq_def split: option.splits)

lemma pdict_get_set:
  "pdict_get (pdict_set d k v) k' = (if py_eq k k' then Some v else pdict_get d k')"
proof (induction d)
  case Nil
  then show ?case by simp
next
  case (Cons p d)
  obtain k0 v0 where p: "p = (k0, v0)" by (cases p)
  show ?case
  proof (cases "py_eq k0 k")
    case True
    have "py_eq k0 k' \<longleftrightarrow> py_eq k k'"
      using True py_eq_sym [of k0 k] py_eq_trans [of k0 k k'] py_eq_trans [of k k0 k'] by blast
    then show ?thesis using True by (simp add: p)
  next
    case False
    have "py_eq k0 k' \<Longrightarrow> \<not> py_eq k k'"
      using False py_eq_sym [of k k'] py_eq_trans [of k0 k' k] by blast
    then show ?thesis using False Cons.IH by (auto simp add: p)
  qed
qed

lemma key_map_loop_get:
  assumes "key_map_loop options cands m0 = Inr m"
  shows "pdict_get m k =
           (case filter (smart_keyed_as options k) cands of
              [] \<Rightarrow> pdict_get m0 k
            | e # es \<Rightarrow> Some (last (e # es)))"
  using assms
proof (induction cands arbitrary: m0)
  case Nil
  then show ?case by simp
next
  case (Cons p cands)
  obtain i r where p: "p = (i, r)" by (cases p)
  show ?case
  proof (cases "key_cell r (key_column_index options)")
    case (Inl e)
    with Cons.prems p show ?thesis by simp
  next
    case (Inr ko)
    show ?thesis
    proof (cases ko)
      case None
      with Inr Cons.prems p have "key_map_loop options cands m0 = Inr m" by simp
      from Cons.IH [OF this] show ?thesis
        by (simp add: p smart_keyed_as_def Inr None)
    next
      case (Some key)
      show ?thesis
      proof (cases "key \<noteq> PNone \<and> \<not> py_eq key (PStr [])")
        case False
        with Some Inr Cons.prems p have "key_map_loop options cands m0 = Inr m" by auto
        from Cons.IH [OF this] False show ?thesis
          by (auto simp add: p smart_keyed_as_def Inr Some)
      next
        case True
        with Some Inr Cons.prems p
        have "key_map_loop options cands (pdict_set m0 (smart_norm options key) (i, r)) = Inr m"
          by simp
        from Cons.IH [OF this]
        have IH: "pdict_get m k =
           (case filter (smart_keyed_as options k) cands of
              [] \<Rightarrow> pdict_get (pdict_set m0 (smart_norm options key) (i, r)) k
            | e # es \<Rightarrow> Some (last (e # es)))" .
        have ka: "smart_keyed_as options k p \<longleftrightarrow> py_eq (smart_norm options key) k"
          using True by (simp add: p smart_keyed_as_def Inr Some)
        show ?thesis
        proof (cases "py_eq (smart_norm options key) k")
          case True
          then show ?thesis using IH ka
            by (cases "filter (smart_keyed_as options k) cands") (simp_all add: pdict_get_set p)
        next
          case False
          then show ?thesis using IH ka
            by (cases "filter (smart_keyed_as options k) cands") (simp_all add: pdict_get_set p)
        qed
      qed
    qed
  qed
qed

text \<open>
  Claim C5 as stated fails in the smart comparison service: of two rows with the key
  \<open>k\<close> its key map keeps the second only.
\<close>

theorem service_key_map_overwrites:
  "build_key_map (default_smart_options\<lparr>use_key_column := True\<rparr>)
      [[PStr ''k'', PStr ''1''], [PStr ''k'', PStr ''2'']] False
     = Inr [(PStr ''k'', 1, [PStr ''k'', PStr ''2''])]"
  by code_simp

lemma mset_dict_append:
  "mset (concat (map snd (dict_append d k x))) = mset (concat (map snd d)) + {#x#}"
proof (induction d)
  case Nil
  then show ?case by simp
next
  case (Cons p d)
  obtain k' xs where p: "p = (k', xs)" by (cases p)
  from Cons show ?case by (simp add: p)
qed

lemma build_rows_mset:
  assumes "0 \<le> c1" "case c2 of None \<Rightarrow> True | Some c \<Rightarrow> 0 \<le> c"
    and "build_rows (Some c1) c2 options cands d = Inr d'"
  shows "mset (concat (map snd d')) = mset (concat (map snd d)) + mset (filter (key1_present c1) cands)"
  using assms(3)
proof (induction cands arbitrary: d)
  case Nil
  then show ?case by simp
next
  case (Cons p cands)
  obtain i r where p: "p = (i, r)" by (cases p)
  note mk = make_key_total [OF assms(1,2), of r options]
  show ?case
  proof (cases "not_blank (row_get r (nat c1))")
    case False
    with mk have m: "make_key r (Some c1) c2 options = Inr None" by simp
    with Cons.prems p have "build_rows (Some c1) c2 options cands d = Inr d'" by simp
    from Cons.IH [OF this] False show ?thesis
      by (simp add: p key1_present_def not_blank_def)
  next
    case True
    with mk obtain k where k: "k \<noteq> []" "make_key r (Some c1) c2 options = Inr (Some k)" by blast
    with Cons.prems p have "build_rows (Some c1) c2 options cands (dict_append d k (i, r)) = Inr d'"
      by simp
    from Cons.IH [OF this] True show ?thesis
      by (simp add: p key1_present_def not_blank_def mset_dict_append)
  qed
qed

text \<open>
  Claim C5, as the code has it. In the handlers of the main window the key map of a grid
  takes a key to the list of its rows \<open>(row_index, row_values)\<close>: the keys are
  distinct, and the list of a key holds, in row order, exactly the rows to be keyed for
  which \<open>make_key\<close> returns that key. With key columns that are not negative
  \<open>make_key\<close> never raises, it returns a key (never the empty one) exactly for
  the rows whose first key cell holds a value with text that is not blank, and the rows
  of all lists together are exactly those rows, each once: rows that share a key are all
  kept. The rows to be keyed are all rows of the sheet but the header row. In the smart
  comparison service the key map holds one row per key: the last row stored under it.
\<close>

theorem handler_key_map_keeps_rows:
  "(build_rows col1 col2 options cands [] = Inr m \<longrightarrow>
      distinct (map fst m) \<and>
      (\<forall>k. k \<noteq> [] \<longrightarrow> dict_get_list m k = filter (keyed_as col1 col2 options k) cands) \<and>
      (\<forall>k. k \<in> set (map fst m) \<longleftrightarrow> k \<noteq> [] \<and> (\<exists>e\<in>set cands. keyed_as col1 col2 options k e))) \<and>
   (0 \<le> c1 \<and> (case col2 of None \<Rightarrow> True | Some c \<Rightarrow> 0 \<le> c) \<longrightarrow>
      (\<exists>m'. build_rows (Some c1) col2 options cands [] = Inr m' \<and>
            mset (concat (map snd m')) = mset (filter (key1_present c1) cands)) \<and>
      (\<forall>e. (\<not> key1_present c1 e \<longrightarrow> make_key (snd e) (Some c1) col2 options = Inr None) \<and>
           (key1_present c1 e \<longrightarrow>
              (\<exists>k. k \<noteq> [] \<and> make_key (snd e) (Some c1) col2 options = Inr (Some k))))) \<and>
   keyed_candidates sh header_row =
     map (\<lambda>i. (i, extract_row_data sh (int i)))
       (filter (\<lambda>i. Some (int i) \<noteq> header_row) [0..<row_count sh]) \<and>
   (build_key_map sopts data skip = Inr km \<longrightarrow>
      pdict_get km sk =
        (case filter (smart_keyed_as sopts sk)
                (drop (if skip then header_row_index sopts + 1 else 0) (enumerate 0 data)) of
           [] \<Rightarrow> None
         | e # es \<Rightarrow> Some (last (e # es))))"
proof -
  have p1: "build_rows col1 col2 options cands [] = Inr m \<longrightarrow>
      distinct (map fst m) \<and>
      (\<forall>k. k \<noteq> [] \<longrightarrow> dict_get_list m k = filter (keyed_as col1 col2 options k) cands) \<and>
      (\<forall>k. k \<in> set (map fst m) \<longleftrightarrow> k \<noteq> [] \<and> (\<exists>e\<in>set cands. keyed_as col1 col2 options k e))"
  proof
    assume b: "build_rows col1 col2 options cands [] = Inr m"
    note K = build_rows_keys [OF b]
    have a1: "distinct (map fst m)" using K by simp
    have a2: "\<forall>k. k \<noteq> [] \<longrightarrow> dict_get_list m k = filter (keyed_as col1 col2 options k) cands"
      using build_rows_get [OF b] by (simp add: dict_get_list_def)
    have a3: "\<forall>k. k \<in> set (map fst m) \<longleftrightarrow> k \<noteq> [] \<and> (\<exists>e\<in>set cands. keyed_as col1 col2 options k e)"
      using K [THEN conjunct1] by simp
    from a1 a2 a3 show "distinct (map fst m) \<and>
      (\<forall>k. k \<noteq> [] \<longrightarrow> dict_get_list m k = filter (keyed_as col1 col2 options k) cands) \<and>
      (\<forall>k. k \<in> set (map fst m) \<longleftrightarrow> k \<noteq> [] \<and> (\<exists>e\<in>set cands. keyed_as col1 col2 options k e))"
      by (intro conjI)
  qed
  have p2: "0 \<le> c1 \<and> (case col2 of None \<Rightarrow> True | Some c \<Rightarrow> 0 \<le> c) \<longrightarrow>
      (\<exists>m'. build_rows (Some c1) col2 options cands [] = Inr m' \<and>
            mset (concat (map snd m')) = mset (filter (key1_present c1) cands)) \<and>
      (\<forall>e. (\<not> key1_present c1 e \<longrightarrow> make_key (snd e) (Some c1) col2 options = Inr None) \<and>
           (key1_present c1 e \<longrightarrow>
              (\<exists>k. k \<noteq> [] \<and> make_key (snd e) (Some c1) col2 options = Inr (Some k))))"
  proof
    assume h: "0 \<le> c1 \<and> (case col2 of None \<Rightarrow> True | Some c \<Rightarrow> 0 \<le> c)"
    then have h1: "0 \<le> c1" and h2: "case col2 of None \<Rightarrow> True | Some c \<Rightarrow> 0 \<le> c" by simp_all
    from build_rows_total [OF h1 h2, of options cands "[]"]
    obtain m' where m': "build_rows (Some c1) col2 options cands [] = Inr m'" by blast
    from build_rows_mset [OF h1 h2 m']
    have b1: "\<exists>m'. build_rows (Some c1) col2 options cands [] = Inr m' \<and>
            mset (concat (map snd m')) = mset (filter (key1_present c1) cands)"
      using m' by simp
    have b2: "\<forall>e. (\<not> key1_present c1 e \<longrightarrow> make_key (snd e) (Some c1) col2 options = Inr None) \<and>
           (key1_present c1 e \<longrightarrow>
              (\<exists>k. k \<noteq> [] \<and> make_key (snd e) (Some c1) col2 options = Inr (Some k)))"
    proof
      fix e
      from make_key_total [OF h1 h2, of "snd e" options]
      show "(\<not> key1_present c1 e \<longrightarrow> make_key (snd e) (Some c1) col2 options = Inr None) \<and>
           (key1_present c1 e \<longrightarrow>
              (\<exists>k. k \<noteq> [] \<and> make_key (snd e) (Some c1) col2 options = Inr (Some k)))"
        by (simp add: key1_present_def not_blank_def)
    qed
    from b1 b2 show "(\<exists>m'. build_rows (Some c1) col2 options cands [] = Inr m' \<and>
            mset (concat (map snd m')) = mset (filter (key1_present c1) cands)) \<and>
      (\<forall>e. (\<not> key1_present c1 e \<longrightarrow> make_key (snd e) (Some c1) col2 options = Inr None) \<and>
           (key1_present c1 e \<longrightarrow>
              (\<exists>k. k \<noteq> [] \<and> make_key (snd e) (Some c1) col2 options = Inr (Some k))))"
      by (rule conjI)
  qed
  have p4: "build_key_map sopts data skip = Inr km \<longrightarrow>
      pdict_get km sk =
        (case filter (smart_keyed_as sopts sk)
                (drop (if skip then header_row_index sopts + 1 else 0) (enumerate 0 data)) of
           [] \<Rightarrow> None
         | e # es \<Rightarrow> Some (last (e # es)))"
  proof
    assume "build_key_map sopts data skip = Inr km"
    then have "key_map_loop sopts
        (drop (if skip then header_row_index sopts + 1 else 0) (enumerate 0 data)) [] = Inr km"
      by (simp add: build_key_map_def)
    from key_map_loop_get [OF this, of sk]
    show "pdict_get km sk =
        (case filter (smart_keyed_as sopts sk)
                (drop (if skip then header_row_index sopts + 1 else 0) (enumerate 0 data)) of
           [] \<Rightarrow> None
         | e # es \<Rightarrow> Some (last (e # es)))"
      unfolding pdict_get.simps(1) .
  qed
  from p1 p2 keyed_candidates_rows [of sh header_row] p4 show ?thesis by (intro conjI)
qed

theorem handler_key_map_keeps_rows_witness:
  "build_rows (Some 0) (Some 1) default_options (keyed_candidates key_demo_a None) [] =
     Inr [(''x|1'',
           [(0, [PStr ''x'', PStr ''1'', PStr ''a'', PNone, PNone, PNone]),
            (5, [PStr ''x'', PStr ''1'', PNone, PStr [], PStr '' '', PStr ''b''])])] \<and>
   filter (keyed_as (Some 0) (Some 1) default_options ''x|1'') (keyed_candidates key_demo_a None) =
     [(0, [PStr ''x'', PStr ''1'', PStr ''a'', PNone, PNone, PNone]),
      (5, [PStr ''x'', PStr ''1'', PNone, PStr [], PStr '' '', PStr ''b''])] \<and>
   mset (filter (key1_present 0) (keyed_candidates key_demo_a None)) =
     {#(0, [PStr ''x'', PStr ''1'', PStr ''a'', PNone, PNone, PNone]),
       (5, [PStr ''x'', PStr ''1'', PNone, PStr [], PStr '' '', PStr ''b''])#} \<and>
   map fst (keyed_candidates key_demo_a (Some 0)) = [1, 2, 3, 4, 5] \<and>
   make_key [PStr '' X '', PNum 1 ''1''] (Some 0) (Some 1) fold_options = Inr (Some ''x|1'') \<and>
   make_key [PStr '' X '', PNum 1 ''1''] (Some 0) (Some 1) default_options = Inr (Some ''X|1'') \<and>
   make_key [PStr ''x'', PStr '' ''] (Some 0) (Some 1) default_options = Inr (Some ''x'') \<and>
   make_key [PStr ''x'', PStr ''1''] (Some 0) None default_options = Inr (Some ''x'') \<and>
   make_key [PStr '' '', PStr ''1''] (Some 0) (Some 1) default_options = Inr None \<and>
   make_key [PNone, PStr ''1''] (Some 0) (Some 1) default_options = Inr None \<and>
   make_key [PStr ''x''] (Some 3) None default_options = Inr None \<and>
   make_key [PStr ''x'', PStr ''1''] None None default_options = Inl TypeError \<and>
   make_key [PStr ''x'', PStr ''y''] (Some (- 1)) None default_options = Inr (Some ''y'') \<and>
   make_key [] (Some (- 1)) None default_options = Inl IndexError \<and>
   pdict_get [(PStr ''k'', 1::nat, [PStr ''k'', PStr ''2''])] (PStr ''k'') = Some (1, [PStr ''k'', PStr ''2''])"
proof -
  define r0 where "r0 = [PStr ''x'', PStr ''1'', PStr ''a'', PNone, PNone, PNone]"
  define r5 where "r5 = [PStr ''x'', PStr ''1'', PNone, PStr [], PStr '' '', PStr ''b'']"
  define m where "m = [(''x|1'', [(0::nat, r0), (5, r5)])]"
  define km where "km = [(PStr ''k'', 1::nat, [PStr ''k'', PStr ''2''])]"
  note T = handler_key_map_keeps_rows [of "Some 0" "Some 1" default_options
      "keyed_candidates key_demo_a None" m 0 key_demo_a None
      "default_smart_options\<lparr>use_key_column := True\<rparr>"
      "[[PStr ''k'', PStr ''1''], [PStr ''k'', PStr ''2'']]" False km "PStr ''k''"]
  have b: "build_rows (Some 0) (Some 1) default_options (keyed_candidates key_demo_a None) [] = Inr m"
    unfolding m_def r0_def r5_def by code_simp
  have g: "dict_get_list m ''x|1'' = [(0, r0), (5, r5)]"
    unfolding m_def by (simp add: dict_get_list_def)
  have ne: "''x|1'' \<noteq> []" by simp
  from T [THEN conjunct1, THEN mp, OF b, THEN conjunct2, THEN conjunct1, rule_format, OF ne] g
  have a1: "filter (keyed_as (Some 0) (Some 1) default_options ''x|1'') (keyed_candidates key_demo_a None)
            = [(0, r0), (5, r5)]"
    by simp
  have h2: "(0::int) \<le> 0 \<and> (case Some (1::int) of None \<Rightarrow> True | Some c \<Rightarrow> 0 \<le> c)" by simp
  from T [THEN conjunct2, THEN conjunct1, THEN mp, OF h2, THEN conjunct1] b
  have "mset (concat (map snd m)) = mset (filter (key1_present 0) (keyed_candidates key_demo_a None))"
    by auto
  then have a2: "mset (filter (key1_present 0) (keyed_candidates key_demo_a None)) = {#(0, r0), (5, r5)#}"
    unfolding m_def by simp
  have a3: "map fst (keyed_candidates key_demo_a (Some 0)) = [1, 2, 3, 4, 5]"
    by code_simp
  have kb: "build_key_map (default_smart_options\<lparr>use_key_column := True\<rparr>)
      [[PStr ''k'', PStr ''1''], [PStr ''k'', PStr ''2'']] False = Inr km"
    unfolding km_def by code_simp
  have fl: "filter (smart_keyed_as (default_smart_options\<lparr>use_key_column := True\<rparr>) (PStr ''k''))
              (drop (if False then header_row_index (default_smart_options\<lparr>use_key_column := True\<rparr>) + 1 else 0)
                 (enumerate 0 [[PStr ''k'', PStr ''1''], [PStr ''k'', PStr ''2'']]))
            = [(0, [PStr ''k'', PStr ''1'']), (1, [PStr ''k'', PStr ''2''])]"
    by code_simp
  from T [THEN conjunct2, THEN conjunct2, THEN conjunct2, THEN mp, OF kb]
  have a4: "pdict_get km (PStr ''k'') = Some (1, [PStr ''k'', PStr ''2''])"
    unfolding fl by simp
  have k1: "make_key [PStr '' X '', PNum 1 ''1''] (Some 0) (Some 1) fold_options = Inr (Some ''x|1'')"
    by code_simp
  have k2: "make_key [PStr '' X '', PNum 1 ''1''] (Some 0) (Some 1) default_options = Inr (Some ''X|1'')"
    by code_simp
  have k3: "make_key [PStr ''x'', PStr '' ''] (Some 0) (Some 1) default_options = Inr (Some ''x'')"
    by code_simp
  have k4: "make_key [PStr ''x'', PStr ''1''] (Some 0) None default_options = Inr (Some ''x'')"
    by code_simp
  have k5: "make_key [PStr '' '', PStr ''1''] (Some 0) (Some 1) default_options = Inr None"
    by code_simp
  have k6: "make_key [PNone, PStr ''1''] (Some 0) (Some 1) default_options = Inr None"
    by code_simp
  have k7: "make_key [PStr ''x''] (Some 3) None default_options = Inr None"
    by code_simp
  have k8: "make_key [PStr ''x'', PStr ''1''] None None default_options = Inl TypeError"
    by code_simp
  have k9: "make_key [PStr ''x'', PStr ''y''] (Some (- 1)) None default_options = Inr (Some ''y'')"
    by code_simp
  have k10: "make_key [] (Some (- 1)) None default_options = Inl IndexError"
    by code_simp
  from b a1 a2 a3 k1 k2 k3 k4 k5 k6 k7 k8 k9 k10 a4 show ?thesis
    unfolding m_def r0_def r5_def km_def by (intro conjI)
qed

text \<open>
  Claim C9 as stated fails in the smart comparison service: \<open>compare_with_range\<close>
  compares a region of one column with a region of two columns and returns a record.
\<close>

theorem range_compare_accepts_unequal_spans:
  "compare_with_range span_demo span_demo ''S''
      (default_smart_options\<lparr>range_a := Some region_a1, range_b := Some region_a1_b1\<rparr>) [] [] =
     Inr \<lparr>file_a = ''w.xlsx'', file_b = ''w.xlsx'',
          diffs = [mk_diff ''S'' 0 1 ADDED PNone (PStr ''y'')],
          summary = \<lparr>total = 1, modified = 0, added = 1, deleted = 0, format_changed = 0\<rparr>\<rparr>"
  by code_simp

text \<open>
  Claim C9, as the code has it. The column span of a rectangle is
  \<open>max_col - min_col + 1\<close>. With both workbooks loaded and both rectangles selected,
  the selection handler ends with the warning of a column count mismatch whenever the
  spans differ, whatever the row spans, the key columns, the header row and the options:
  no sheet is read, no matching runs, and there is neither a result nor an exception. So
  whenever the handler ends with a result, or with the error dialog of an exception
  raised by the comparison, both rectangles are given and their column spans are equal.
\<close>

theorem selection_column_span_check:
  "sel_cols rng = int (max_col rng) - int (min_col rng) + 1 \<and>
   (sel_cols rng_a \<noteq> sel_cols rng_b \<longrightarrow>
      compare_selection (Some wa) (Some wb) sn (Some rng_a) (Some rng_b) kc hr opts order =
        Warned ColumnCountMismatch) \<and>
   (\<forall>res. compare_selection wa_opt wb_opt sn ra_opt rb_opt kc hr opts order = Compared res \<longrightarrow>
      (\<exists>ra rb. ra_opt = Some ra \<and> rb_opt = Some rb \<and> sel_cols ra = sel_cols rb)) \<and>
   (\<forall>e. compare_selection wa_opt wb_opt sn ra_opt rb_opt kc hr opts order = Critical e \<longrightarrow>
      (\<exists>ra rb. ra_opt = Some ra \<and> rb_opt = Some rb \<and> sel_cols ra = sel_cols rb))"
proof -
  have a: "sel_cols rng = int (max_col rng) - int (min_col rng) + 1" by (simp add: sel_cols_def)
  have b: "sel_cols rng_a \<noteq> sel_cols rng_b \<longrightarrow>
      compare_selection (Some wa) (Some wb) sn (Some rng_a) (Some rng_b) kc hr opts order =
        Warned ColumnCountMismatch"
    by (simp add: compare_selection_def Let_def)
  have c: "\<forall>res. compare_selection wa_opt wb_opt sn ra_opt rb_opt kc hr opts order = Compared res \<longrightarrow>
      (\<exists>ra rb. ra_opt = Some ra \<and> rb_opt = Some rb \<and> sel_cols ra = sel_cols rb)"
  proof (intro allI impI)
    fix res assume r: "compare_selection wa_opt wb_opt sn ra_opt rb_opt kc hr opts order = Compared res"
    show "\<exists>ra rb. ra_opt = Some ra \<and> rb_opt = Some rb \<and> sel_cols ra = sel_cols rb"
    proof (cases wa_opt)
      case None then show ?thesis using r by (simp add: compare_selection_def)
    next
      case wa: (Some wa)
      show ?thesis
      proof (cases wb_opt)
        case None then show ?thesis using r wa by (simp add: compare_selection_def)
      next
        case wb: (Some wb)
        show ?thesis
        proof (cases ra_opt)
          case None then show ?thesis using r wa wb by (simp add: compare_selection_def)
        next
          case ra: (Some ra)
          show ?thesis
          proof (cases rb_opt)
            case None then show ?thesis using r wa wb ra by (simp add: compare_selection_def)
          next
            case rb: (Some rb)
            have "sel_cols ra = sel_cols rb"
            proof (rule ccontr)
              assume "sel_cols ra \<noteq> sel_cols rb"
              with r wa wb ra rb show False
                by (simp add: compare_selection_def Let_def)
            qed
            with ra rb show ?thesis by simp
          qed
        qed
      qed
    qed
  qed
  have d: "\<forall>e. compare_selection wa_opt wb_opt sn ra_opt rb_opt kc hr opts order = Critical e \<longrightarrow>
      (\<exists>ra rb. ra_opt = Some ra \<and> rb_opt = Some rb \<and> sel_cols ra = sel_cols rb)"
  proof (intro allI impI)
    fix e assume r: "compare_selection wa_opt wb_opt sn ra_opt rb_opt kc hr opts order = Critical e"
    show "\<exists>ra rb. ra_opt = Some ra \<and> rb_opt = Some rb \<and> sel_cols ra = sel_cols rb"
    proof (cases wa_opt)
      case None then show ?thesis using r by (simp add: compare_selection_def)
    next
      case wa: (Some wa)
      show ?thesis
      proof (cases wb_opt)
        case None then show ?thesis using r wa by (simp add: compare_selection_def)
      next
        case wb: (Some wb)
        show ?thesis
        proof (cases ra_opt)
          case None then show ?thesis using r wa wb by (simp add: compare_selection_def)
        next
          case ra: (Some ra)
          show ?thesis
          proof (cases rb_opt)
            case None then show ?thesis using r wa wb ra by (simp add: compare_selection_def)
          next
            case rb: (Some rb)
            have "sel_cols ra = sel_cols rb"
            proof (rule ccontr)
              assume "sel_cols ra \<noteq> sel_cols rb"
              with r wa wb ra rb show False
                by (simp add: compare_selection_def Let_def)
            qed
            with ra rb show ?thesis by simp
          qed
        qed
      qed
    qed
  qed
  from a b c d show ?thesis by (intro conjI)
qed

theorem selection_column_span_check_witness:
  "sel_cols cell00 = 1 \<and> sel_cols cells_a1_b1 = 2 \<and> sel_rows cell00 = sel_rows cells_a1_b1 \<and>
   compare_selection (Some span_demo) (Some span_demo_b) ''S'' (Some cell00) (Some cells_a1_b1)
      no_keys None default_options [] = Warned ColumnCountMismatch \<and>
   compare_selection (Some span_demo) (Some span_demo_b) ''S'' (Some cells_a1_b1) (Some cells_a1_b1)
      no_keys None default_options [] =
     Compared \<lparr>file_a = ''w.xlsx'', file_b = ''v.xlsx'',
        diffs = [mk_diff_b ''S'' 0 1 MODIFIED (PStr ''y'') (PStr ''z'') 0 1],
        summary = \<lparr>total = 1, modified = 1, added = 0, deleted = 0, format_changed = 0\<rparr>\<rparr> \<and>
   compare_selection (Some span_demo) (Some span_demo_b) ''S'' (Some cells_b1) (Some cells_b1)
      keys_b_and_zero None default_options [] = Critical IndexError \<and>
   (\<exists>ra rb. Some cells_a1_b1 = Some ra \<and> Some cells_a1_b1 = Some rb \<and> sel_cols ra = sel_cols rb) \<and>
   (\<exists>ra rb. Some cells_b1 = Some ra \<and> Some cells_b1 = Some rb \<and> sel_cols ra = sel_cols rb)"
proof -
  define res where "res = \<lparr>file_a = ''w.xlsx'', file_b = ''v.xlsx'',
        diffs = [mk_diff_b ''S'' 0 1 MODIFIED (PStr ''y'') (PStr ''z'') 0 1],
        summary = \<lparr>total = 1, modified = 1, added = 0, deleted = 0, format_changed = 0\<rparr>\<rparr>"
  note T1 = selection_column_span_check [of cell00 cell00 cells_a1_b1 span_demo span_demo_b
      "''S''" no_keys None default_options "[]" "Some span_demo" "Some span_demo_b"
      "Some cells_a1_b1" "Some cells_a1_b1"]
  note T2 = selection_column_span_check [of cells_a1_b1 cell00 cells_a1_b1 span_demo span_demo_b
      "''S''" keys_b_and_zero None default_options "[]" "Some span_demo" "Some span_demo_b"
      "Some cells_b1" "Some cells_b1"]
  have s1: "sel_cols cell00 = 1"
    using T1 [THEN conjunct1] by (simp add: cell00_def)
  have s2: "sel_cols cells_a1_b1 = 2"
    using T2 [THEN conjunct1] by (simp add: cells_a1_b1_def)
  have s3: "sel_rows cell00 = sel_rows cells_a1_b1"
    by (simp add: sel_rows_def cell00_def cells_a1_b1_def)
  have ne: "sel_cols cell00 \<noteq> sel_cols cells_a1_b1" using s1 s2 by simp
  note w = T1 [THEN conjunct2, THEN conjunct1, THEN mp, OF ne]
  have c: "compare_selection (Some span_demo) (Some span_demo_b) ''S'' (Some cells_a1_b1)
      (Some cells_a1_b1) no_keys None default_options [] = Compared res"
    unfolding res_def by code_simp
  note e1 = T1 [THEN conjunct2, THEN conjunct2, THEN conjunct1, rule_format, OF c]
  have k: "compare_selection (Some span_demo) (Some span_demo_b) ''S'' (Some cells_b1)
      (Some cells_b1) keys_b_and_zero None default_options [] = Critical IndexError"
    by code_simp
  note e2 = T2 [THEN conjunct2, THEN conjunct2, THEN conjunct2, rule_format, OF k]
  from s1 s2 s3 w c [unfolded res_def] k e1 e2 show ?thesis by (intro conjI)
qed

text \<open>
  Claim C3 against the code. The handlers of the main window run \<open>for key in all_keys\<close>
  over the set itself: for the two sheets above the set of keys is \<open>{a, b}\<close>, and the
  records come in the order in which the set yields its keys, row 1 before row 0 for the
  order \<open>a, b\<close> and row 0 before row 1 for the order \<open>b, a\<close>, in
  \<open>_compare_with_smart_match\<close> and in \<open>_compare_selection_smart\<close> alike. The smart
  comparison service sorts the keys by their string form and gives the records in the
  same order for both.
\<close>

theorem handler_records_follow_set_order:
  "build_rows (Some 0) None default_options (keyed_candidates order_demo_a None) [] =
     Inr [(''b'', [(0, [PStr ''b'', PStr ''1''])]), (''a'', [(1, [PStr ''a'', PStr ''2''])])] \<and>
   build_rows (Some 0) None default_options (keyed_candidates order_demo_b None) [] =
     Inr [(''b'', [(0, [PStr ''b'', PStr ''9''])]), (''a'', [(1, [PStr ''a'', PStr ''8''])])] \<and>
   all_keys [(''b'', [(0, [PStr ''b'', PStr ''1''])]), (''a'', [(1, [PStr ''a'', PStr ''2''])])]
            [(''b'', [(0, [PStr ''b'', PStr ''9''])]), (''a'', [(1, [PStr ''a'', PStr ''8''])])] =
     {''a'', ''b''} \<and>
   smart_match_sheet ''S'' order_demo_a order_demo_b first_col_key None default_options [''a'', ''b''] =
     Inr [mk_diff_b ''S'' 1 1 MODIFIED (PStr ''2'') (PStr ''8'') 1 1,
          mk_diff_b ''S'' 0 1 MODIFIED (PStr ''1'') (PStr ''9'') 0 1] \<and>
   smart_match_sheet ''S'' order_demo_a order_demo_b first_col_key None default_options [''b'', ''a''] =
     Inr [mk_diff_b ''S'' 0 1 MODIFIED (PStr ''1'') (PStr ''9'') 0 1,
          mk_diff_b ''S'' 1 1 MODIFIED (PStr ''2'') (PStr ''8'') 1 1] \<and>
   compare_selection_smart ''S'' order_demo_a order_demo_b cells_a1_b2 cells_a1_b2 (Some 0) None None
       default_options None [''a'', ''b''] =
     Inr [mk_diff_b ''S'' 1 1 MODIFIED (PStr ''2'') (PStr ''8'') 1 1,
          mk_diff_b ''S'' 0 1 MODIFIED (PStr ''1'') (PStr ''9'') 0 1] \<and>
   compare_selection_smart ''S'' order_demo_a order_demo_b cells_a1_b2 cells_a1_b2 (Some 0) None None
       default_options None [''b'', ''a''] =
     Inr [mk_diff_b ''S'' 0 1 MODIFIED (PStr ''1'') (PStr ''9'') 0 1,
          mk_diff_b ''S'' 1 1 MODIFIED (PStr ''2'') (PStr ''8'') 1 1] \<and>
   compare_by_key ''S'' [[PStr ''b'', PStr ''1''], [PStr ''a'', PStr ''2'']]
       [[PStr ''b'', PStr ''9''], [PStr ''a'', PStr ''8'']]
       (default_smart_options\<lparr>use_key_column := True\<rparr>) 0 0 [PStr ''a'', PStr ''b''] =
     Inr [mk_diff ''S'' 1 1 MODIFIED (PStr ''2'') (PStr ''8''),
          mk_diff ''S'' 0 1 MODIFIED (PStr ''1'') (PStr ''9'')] \<and>
   compare_by_key ''S'' [[PStr ''b'', PStr ''1''], [PStr ''a'', PStr ''2'']]
       [[PStr ''b'', PStr ''9''], [PStr ''a'', PStr ''8'']]
       (default_smart_options\<lparr>use_key_column := True\<rparr>) 0 0 [PStr ''b'', PStr ''a''] =
     Inr [mk_diff ''S'' 1 1 MODIFIED (PStr ''2'') (PStr ''8''),
          mk_diff ''S'' 0 1 MODIFIED (PStr ''1'') (PStr ''9'')]"
proof -
  have a1: "build_rows (Some 0) None default_options (keyed_candidates order_demo_a None) [] =
     Inr [(''b'', [(0, [PStr ''b'', PStr ''1''])]), (''a'', [(1, [PStr ''a'', PStr ''2''])])]"
    by code_simp
  have a2: "build_rows (Some 0) None default_options (keyed_candidates order_demo_b None) [] =
     Inr [(''b'', [(0, [PStr ''b'', PStr ''9''])]), (''a'', [(1, [PStr ''a'', PStr ''8''])])]"
    by code_simp
  have a3: "all_keys [(''b'', [(0, [PStr ''b'', PStr ''1''])]), (''a'', [(1, [PStr ''a'', PStr ''2''])])]
            [(''b'', [(0, [PStr ''b'', PStr ''9''])]), (''a'', [(1, [PStr ''a'', PStr ''8''])])] =
     {''a'', ''b''}"
    by (auto simp add: all_keys_def)
  have a4: "smart_match_sheet ''S'' order_demo_a order_demo_b first_col_key None default_options [''a'', ''b''] =
     Inr [mk_diff_b ''S'' 1 1 MODIFIED (PStr ''2'') (PStr ''8'') 1 1,
          mk_diff_b ''S'' 0 1 MODIFIED (PStr ''1'') (PStr ''9'') 0 1]"
    by code_simp
  have a5: "smart_match_sheet ''S'' order_demo_a order_demo_b first_col_key None default_options [''b'', ''a''] =
     Inr [mk_diff_b ''S'' 0 1 MODIFIED (PStr ''1'') (PStr ''9'') 0 1,
          mk_diff_b ''S'' 1 1 MODIFIED (PStr ''2'') (PStr ''8'') 1 1]"
    by code_simp
  have a6: "compare_selection_smart ''S'' order_demo_a order_demo_b cells_a1_b2 cells_a1_b2 (Some 0) None None
       default_options None [''a'', ''b''] =
     Inr [mk_diff_b ''S'' 1 1 MODIFIED (PStr ''2'') (PStr ''8'') 1 1,
          mk_diff_b ''S'' 0 1 MODIFIED (PStr ''1'') (PStr ''9'') 0 1]"
    by code_simp
  have a7: "compare_selection_smart ''S'' order_demo_a order_demo_b cells_a1_b2 cells_a1_b2 (Some 0) None None
       default_options None [''b'', ''a''] =
     Inr [mk_diff_b ''S'' 0 1 MODIFIED (PStr ''1'') (PStr ''9'') 0 1,
          mk_diff_b ''S'' 1 1 MODIFIED (PStr ''2'') (PStr ''8'') 1 1]"
    by code_simp
  have a8: "compare_by_key ''S'' [[PStr ''b'', PStr ''1''], [PStr ''a'', PStr ''2'']]
       [[PStr ''b'', PStr ''9''], [PStr ''a'', PStr ''8'']]
       (default_smart_options\<lparr>use_key_column := True\<rparr>) 0 0 [PStr ''a'', PStr ''b''] =
     Inr [mk_diff ''S'' 1 1 MODIFIED (PStr ''2'') (PStr ''8''),
          mk_diff ''S'' 0 1 MODIFIED (PStr ''1'') (PStr ''9'')]"
    by code_simp
  have a9: "compare_by_key ''S'' [[PStr ''b'', PStr ''1''], [PStr ''a'', PStr ''2'']]
       [[PStr ''b'', PStr ''9''], [PStr ''a'', PStr ''8'']]
       (default_smart_options\<lparr>use_key_column := True\<rparr>) 0 0 [PStr ''b'', PStr ''a''] =
     Inr [mk_diff ''S'' 1 1 MODIFIED (PStr ''2'') (PStr ''8''),
          mk_diff ''S'' 0 1 MODIFIED (PStr ''1'') (PStr ''9'')]"
    by code_simp
  from a1 a2 a3 a4 a5 a6 a7 a8 a9 show ?thesis by (intro conjI)
qed



lemma col_fold_empty:
  "foldl (\<lambda>m (header, col_a). case map_of [] header of Some cb \<Rightarrow> dict_set m col_a cb | None \<Rightarrow> m)
     m hs = m"
  by (induction hs arbitrary: m) (auto split: prod.splits)

lemma build_col_map_Nil [simp]: "build_col_map [] hb = []"
  by (simp add: build_col_map_def)

lemma build_col_map_Nil2 [simp]: "build_col_map ha [] = []"
  unfolding build_col_map_def by (rule col_fold_empty)










end
